theory Spec2Isabelle
  imports Main "HOL-Library.Word"
begin

unbundle bit_operations_syntax

section \<open>The mutation context\<close>

text \<open>
  The mutator of \<^verbatim>\<open>mangle.c\<close> works on a \<^verbatim>\<open>run_t\<close>: a byte buffer
  \<^verbatim>\<open>dynamicFile\<close> with its logical length \<^verbatim>\<open>dynamicFileSz\<close>, and, behind
  \<^verbatim>\<open>run->global\<close>, the capacity \<^verbatim>\<open>maxFileSz\<close>, the dictionary
  (\<^verbatim>\<open>dictionaryCnt\<close> and the queue \<^verbatim>\<open>dictq\<close>), the two
  \<^verbatim>\<open>mutationsPerRun\<close> fields and the flag \<^verbatim>\<open>cfg.only_printable\<close>.

  The buffer is a memory indexed by byte offset. Offsets below \<^verbatim>\<open>maxFileSz\<close> are the
  backing store; the bytes at offsets from \<^verbatim>\<open>dynamicFileSz\<close> on are whatever the store
  holds there. Sizes and offsets (\<^verbatim>\<open>size_t\<close>) are natural numbers, \<^verbatim>\<open>ssize_t\<close>
  values are integers, bytes are 8-bit words. Under the contract of the file
  (\<open>1 \<le> dynamicFileSz \<le> maxFileSz\<close>, far below \<open>2 ^ 63\<close>) no \<^verbatim>\<open>size_t\<close> expression
  of the source wraps: every offset is drawn below the size before it is subtracted from it.

  The random number generator of \<^verbatim>\<open>libhfcommon/util.c\<close> is a process-wide state; here it
  is a tape of 64-bit draws \<open>rndTape\<close> and the number \<open>rndPos\<close> of draws consumed so far.
\<close>

type_synonym byte = "8 word"

record run_t =
  dynamicFile :: "nat \<Rightarrow> byte"
  dynamicFileSz :: nat
  maxFileSz :: nat
  dictionaryCnt :: nat
  dictq :: "byte list list"
  mutationsPerRun :: nat
  global_mutationsPerRun :: nat
  only_printable :: bool
  rndTape :: "nat \<Rightarrow> 64 word"
  rndPos :: nat

section \<open>Collaborators outside \<^verbatim>\<open>mangle.c\<close>\<close>

text \<open>Modelled from the spec: \<^verbatim>\<open>util_rnd64\<close> (\<^verbatim>\<open>rng.rnd64() -> uint64\<close>) is missing
  from the sources; it hands out the next draw of the tape.\<close>

definition util_rnd64 :: "run_t \<Rightarrow> 64 word \<times> run_t" where
  "util_rnd64 run = (rndTape run (rndPos run), run\<lparr>rndPos := rndPos run + 1\<rparr>)"

text \<open>Modelled from the spec: \<^verbatim>\<open>util_rndGet\<close> (\<^verbatim>\<open>rng.rnd(lo, hi) -> uint64\<close>, inclusive)
  is missing from the sources; it consumes one draw and maps it into \<open>[lo, hi]\<close>.\<close>

definition util_rndGet :: "nat \<Rightarrow> nat \<Rightarrow> run_t \<Rightarrow> nat \<times> run_t" where
  "util_rndGet lo hi run =
     (let (x, run1) = util_rnd64 run in (lo + unat x mod (hi - lo + 1), run1))"

text \<open>Modelled from the spec: \<^verbatim>\<open>util_rndPrintable\<close> (\<^verbatim>\<open>rng.rndPrintable() -> uint8\<close> in
  \<open>[0x20, 0x7E]\<close>) is missing from the sources.\<close>

definition util_rndPrintable :: "run_t \<Rightarrow> byte \<times> run_t" where
  "util_rndPrintable run = (let (v, run1) = util_rndGet 32 126 run in (of_nat v, run1))"

text \<open>Modelled from the spec: \<^verbatim>\<open>util_rndBuf\<close> and \<^verbatim>\<open>util_rndBufPrintable\<close>
  (\<^verbatim>\<open>fill len bytes\<close>) are missing from the sources. They return the \<open>len\<close> fresh bytes,
  one draw each; the caller stores them at the destination.\<close>

fun util_rndBuf :: "nat \<Rightarrow> run_t \<Rightarrow> byte list \<times> run_t" where
  "util_rndBuf 0 run = ([], run)"
| "util_rndBuf (Suc n) run =
     (let (x, run1) = util_rnd64 run; (bs, run2) = util_rndBuf n run1 in (ucast x # bs, run2))"

fun util_rndBufPrintable :: "nat \<Rightarrow> run_t \<Rightarrow> byte list \<times> run_t" where
  "util_rndBufPrintable 0 run = ([], run)"
| "util_rndBufPrintable (Suc n) run =
     (let (b, run1) = util_rndPrintable run; (bs, run2) = util_rndBufPrintable n run1
      in (b # bs, run2))"

text \<open>Modelled from the spec: \<^verbatim>\<open>util_turnToPrintable(ptr, len)\<close> is missing from the
  sources: for each byte \<open>b\<close>, if \<open>b < 0x20 || b > 0x7E\<close>, replace with \<open>b mod 95 + 0x20\<close>.
  The pointer is always into the buffer, so the model takes the offset.\<close>

definition turn_byte :: "byte \<Rightarrow> byte" where
  "turn_byte b = (if b < 0x20 \<or> b > 0x7E then b mod 95 + 0x20 else b)"

definition util_turnToPrintable :: "nat \<Rightarrow> nat \<Rightarrow> run_t \<Rightarrow> run_t" where
  "util_turnToPrintable off len run =
     run\<lparr>dynamicFile :=
       (\<lambda>i. if off \<le> i \<and> i < off + len then turn_byte (dynamicFile run i)
            else dynamicFile run i)\<rparr>"

text \<open>Modelled from the spec: \<^verbatim>\<open>input_setSize(ctx, newSize)\<close> is missing from the
  sources: it adjusts the logical size and leaves the bytes of the store as they are
  (growing exposes whatever the store holds: the fill is undefined).\<close>

definition input_setSize :: "run_t \<Rightarrow> nat \<Rightarrow> run_t" where
  "input_setSize run sz = run\<lparr>dynamicFileSz := sz\<rparr>"

text \<open>The C library: \<^verbatim>\<open>memmove\<close> inside the buffer reads all its source bytes before
  it writes (overlap-safe); \<open>store\<close> is \<^verbatim>\<open>memmove\<close>/\<^verbatim>\<open>memcpy\<close> from a source object
  outside the buffer (a table entry, a stack variable, a dictionary string); \<^verbatim>\<open>memset\<close>
  fills.\<close>

definition memmove :: "(nat \<Rightarrow> byte) \<Rightarrow> nat \<Rightarrow> nat \<Rightarrow> nat \<Rightarrow> (nat \<Rightarrow> byte)" where
  "memmove m dst src n = (\<lambda>i. if dst \<le> i \<and> i < dst + n then m (src + (i - dst)) else m i)"

definition store :: "(nat \<Rightarrow> byte) \<Rightarrow> nat \<Rightarrow> byte list \<Rightarrow> nat \<Rightarrow> (nat \<Rightarrow> byte)" where
  "store m dst src n = (\<lambda>i. if dst \<le> i \<and> i < dst + n then src ! (i - dst) else m i)"

definition memset :: "(nat \<Rightarrow> byte) \<Rightarrow> nat \<Rightarrow> byte \<Rightarrow> nat \<Rightarrow> (nat \<Rightarrow> byte)" where
  "memset m dst v n = (\<lambda>i. if dst \<le> i \<and> i < dst + n then v else m i)"

section \<open>Buffer primitives\<close>

definition mangle_Overwrite :: "run_t \<Rightarrow> byte list \<Rightarrow> nat \<Rightarrow> nat \<Rightarrow> run_t" where
  "mangle_Overwrite run src off sz =
     (let maxToCopy = dynamicFileSz run - off;
          sz1 = (if sz > maxToCopy then maxToCopy else sz)
      in run\<lparr>dynamicFile := store (dynamicFile run) off src sz1\<rparr>)"

text \<open>In \<^verbatim>\<open>mangle_Move\<close> the lengths \<^verbatim>\<open>len_from\<close> and \<^verbatim>\<open>len_to\<close> are
  \<^verbatim>\<open>ssize_t\<close>, and \<^verbatim>\<open>len\<close> is compared with them after the cast
  \<^verbatim>\<open>(ssize_t)len\<close>, which keeps the value of every length below \<open>2 ^ 63\<close>; the
  assignment \<^verbatim>\<open>len = len_from\<close> converts back (the value is not negative there). For a
  length or a size from \<open>2 ^ 63\<close> on the cast changes the value; the statements about
  \<^verbatim>\<open>mangle_Move\<close> as such assume both below that bound.\<close>

definition mangle_Move :: "run_t \<Rightarrow> nat \<Rightarrow> nat \<Rightarrow> nat \<Rightarrow> run_t" where
  "mangle_Move run off_from off_to len =
     (if off_from \<ge> dynamicFileSz run then run
      else if off_to \<ge> dynamicFileSz run then run
      else
        let len_from = int (dynamicFileSz run) - int off_from - 1;
            len_to = int (dynamicFileSz run) - int off_to - 1;
            len1 = (if int len > len_from then nat len_from else len);
            len2 = (if int len1 > len_to then nat len_to else len1)
        in run\<lparr>dynamicFile := memmove (dynamicFile run) off_to off_from len2\<rparr>)"

definition mangle_Inflate :: "run_t \<Rightarrow> nat \<Rightarrow> nat \<Rightarrow> bool \<Rightarrow> run_t" where
  "mangle_Inflate run off len printable =
     (if dynamicFileSz run \<ge> maxFileSz run then run
      else
        let len1 = (if len > maxFileSz run - dynamicFileSz run
                    then maxFileSz run - dynamicFileSz run else len);
            run1 = input_setSize run (dynamicFileSz run + len1);
            run2 = mangle_Move run1 off (off + len1) (dynamicFileSz run1);
            (bs, run3) = (if printable then util_rndBufPrintable len1 run2
                          else util_rndBuf len1 run2)
        in run3\<lparr>dynamicFile := store (dynamicFile run3) off bs len1\<rparr>)"

section \<open>The operators\<close>

definition mangle_MemMove :: "run_t \<Rightarrow> bool \<Rightarrow> run_t" where
  "mangle_MemMove run printable =
     (let (off_from, run1) = util_rndGet 0 (dynamicFileSz run - 1) run;
          (off_to, run2) = util_rndGet 0 (dynamicFileSz run1 - 1) run1;
          (len, run3) = util_rndGet 0 (dynamicFileSz run2) run2
      in mangle_Move run3 off_from off_to len)"

definition mangle_Bytes :: "run_t \<Rightarrow> bool \<Rightarrow> run_t" where
  "mangle_Bytes run printable =
     (let (off, run1) = util_rndGet 0 (dynamicFileSz run - 1) run;
          (buf, run2) = (if printable then util_rndBufPrintable 8 run1 else util_rndBuf 8 run1);
          (toCopy, run3) = util_rndGet 1 8 run2
      in mangle_Overwrite run3 buf off toCopy)"

definition mangle_Bit :: "run_t \<Rightarrow> bool \<Rightarrow> run_t" where
  "mangle_Bit run printable =
     (let (off, run1) = util_rndGet 0 (dynamicFileSz run - 1) run;
          (b, run2) = util_rndGet 0 7 run1;
          run3 = run2\<lparr>dynamicFile :=
                   (dynamicFile run2)(off := dynamicFile run2 off XOR push_bit b 1)\<rparr>
      in if printable then util_turnToPrintable off 1 run3 else run3)"

definition mangle_DictionaryInsertNoCheck :: "run_t \<Rightarrow> bool \<Rightarrow> run_t" where
  "mangle_DictionaryInsertNoCheck run printable =
     (let (choice, run1) = util_rndGet 0 (dictionaryCnt run - 1) run;
          str = dictq run1 ! choice;
          (off, run2) = util_rndGet 0 (dynamicFileSz run1 - 1) run1;
          run3 = mangle_Inflate run2 off (length str) printable
      in mangle_Overwrite run3 str off (length str))"

definition mangle_DictionaryInsert :: "run_t \<Rightarrow> bool \<Rightarrow> run_t" where
  "mangle_DictionaryInsert run printable =
     (if dictionaryCnt run = 0 then mangle_Bit run printable
      else mangle_DictionaryInsertNoCheck run printable)"

definition mangle_DictionaryNoCheck :: "run_t \<Rightarrow> run_t" where
  "mangle_DictionaryNoCheck run =
     (let (off, run1) = util_rndGet 0 (dynamicFileSz run - 1) run;
          (choice, run2) = util_rndGet 0 (dictionaryCnt run1 - 1) run1;
          str = dictq run2 ! choice
      in mangle_Overwrite run2 str off (length str))"

definition mangle_Dictionary :: "run_t \<Rightarrow> bool \<Rightarrow> run_t" where
  "mangle_Dictionary run printable =
     (if dictionaryCnt run = 0 then mangle_Bit run printable
      else mangle_DictionaryNoCheck run)"

text \<open>The table \<^verbatim>\<open>mangleMagicVals\<close> of \<^verbatim>\<open>mangle_Magic\<close>: each entry is the
  8-byte array \<^verbatim>\<open>val\<close> and its \<^verbatim>\<open>size\<close>, in the order of the source.\<close>

definition mangleMagicVals :: "(byte list \<times> nat) list" where
  "mangleMagicVals = [
    \<comment> \<open>1B - No endianness\<close>
    ([0x00, 0x00, 0x00, 0x00, 0x00, 0x00, 0x00, 0x00], 1),
    ([0x01, 0x00, 0x00, 0x00, 0x00, 0x00, 0x00, 0x00], 1),
    ([0x02, 0x00, 0x00, 0x00, 0x00, 0x00, 0x00, 0x00], 1),
    ([0x03, 0x00, 0x00, 0x00, 0x00, 0x00, 0x00, 0x00], 1),
    ([0x04, 0x00, 0x00, 0x00, 0x00, 0x00, 0x00, 0x00], 1),
    ([0x05, 0x00, 0x00, 0x00, 0x00, 0x00, 0x00, 0x00], 1),
    ([0x06, 0x00, 0x00, 0x00, 0x00, 0x00, 0x00, 0x00], 1),
    ([0x07, 0x00, 0x00, 0x00, 0x00, 0x00, 0x00, 0x00], 1),
    ([0x08, 0x00, 0x00, 0x00, 0x00, 0x00, 0x00, 0x00], 1),
    ([0x09, 0x00, 0x00, 0x00, 0x00, 0x00, 0x00, 0x00], 1),
    ([0x0A, 0x00, 0x00, 0x00, 0x00, 0x00, 0x00, 0x00], 1),
    ([0x0B, 0x00, 0x00, 0x00, 0x00, 0x00, 0x00, 0x00], 1),
    ([0x0C, 0x00, 0x00, 0x00, 0x00, 0x00, 0x00, 0x00], 1),
    ([0x0D, 0x00, 0x00, 0x00, 0x00, 0x00, 0x00, 0x00], 1),
    ([0x0E, 0x00, 0x00, 0x00, 0x00, 0x00, 0x00, 0x00], 1),
    ([0x0F, 0x00, 0x00, 0x00, 0x00, 0x00, 0x00, 0x00], 1),
    ([0x10, 0x00, 0x00, 0x00, 0x00, 0x00, 0x00, 0x00], 1),
    ([0x20, 0x00, 0x00, 0x00, 0x00, 0x00, 0x00, 0x00], 1),
    ([0x40, 0x00, 0x00, 0x00, 0x00, 0x00, 0x00, 0x00], 1),
    ([0x7E, 0x00, 0x00, 0x00, 0x00, 0x00, 0x00, 0x00], 1),
    ([0x7F, 0x00, 0x00, 0x00, 0x00, 0x00, 0x00, 0x00], 1),
    ([0x80, 0x00, 0x00, 0x00, 0x00, 0x00, 0x00, 0x00], 1),
    ([0x81, 0x00, 0x00, 0x00, 0x00, 0x00, 0x00, 0x00], 1),
    ([0xC0, 0x00, 0x00, 0x00, 0x00, 0x00, 0x00, 0x00], 1),
    ([0xFE, 0x00, 0x00, 0x00, 0x00, 0x00, 0x00, 0x00], 1),
    ([0xFF, 0x00, 0x00, 0x00, 0x00, 0x00, 0x00, 0x00], 1),
    \<comment> \<open>2B - NE\<close>
    ([0x00, 0x00, 0x00, 0x00, 0x00, 0x00, 0x00, 0x00], 2),
    ([0x01, 0x01, 0x00, 0x00, 0x00, 0x00, 0x00, 0x00], 2),
    ([0x80, 0x80, 0x00, 0x00, 0x00, 0x00, 0x00, 0x00], 2),
    ([0xFF, 0xFF, 0x00, 0x00, 0x00, 0x00, 0x00, 0x00], 2),
    \<comment> \<open>2B - BE\<close>
    ([0x00, 0x01, 0x00, 0x00, 0x00, 0x00, 0x00, 0x00], 2),
    ([0x00, 0x02, 0x00, 0x00, 0x00, 0x00, 0x00, 0x00], 2),
    ([0x00, 0x03, 0x00, 0x00, 0x00, 0x00, 0x00, 0x00], 2),
    ([0x00, 0x04, 0x00, 0x00, 0x00, 0x00, 0x00, 0x00], 2),
    ([0x00, 0x05, 0x00, 0x00, 0x00, 0x00, 0x00, 0x00], 2),
    ([0x00, 0x06, 0x00, 0x00, 0x00, 0x00, 0x00, 0x00], 2),
    ([0x00, 0x07, 0x00, 0x00, 0x00, 0x00, 0x00, 0x00], 2),
    ([0x00, 0x08, 0x00, 0x00, 0x00, 0x00, 0x00, 0x00], 2),
    ([0x00, 0x09, 0x00, 0x00, 0x00, 0x00, 0x00, 0x00], 2),
    ([0x00, 0x0A, 0x00, 0x00, 0x00, 0x00, 0x00, 0x00], 2),
    ([0x00, 0x0B, 0x00, 0x00, 0x00, 0x00, 0x00, 0x00], 2),
    ([0x00, 0x0C, 0x00, 0x00, 0x00, 0x00, 0x00, 0x00], 2),
    ([0x00, 0x0D, 0x00, 0x00, 0x00, 0x00, 0x00, 0x00], 2),
    ([0x00, 0x0E, 0x00, 0x00, 0x00, 0x00, 0x00, 0x00], 2),
    ([0x00, 0x0F, 0x00, 0x00, 0x00, 0x00, 0x00, 0x00], 2),
    ([0x00, 0x10, 0x00, 0x00, 0x00, 0x00, 0x00, 0x00], 2),
    ([0x00, 0x20, 0x00, 0x00, 0x00, 0x00, 0x00, 0x00], 2),
    ([0x00, 0x40, 0x00, 0x00, 0x00, 0x00, 0x00, 0x00], 2),
    ([0x00, 0x7E, 0x00, 0x00, 0x00, 0x00, 0x00, 0x00], 2),
    ([0x00, 0x7F, 0x00, 0x00, 0x00, 0x00, 0x00, 0x00], 2),
    ([0x00, 0x80, 0x00, 0x00, 0x00, 0x00, 0x00, 0x00], 2),
    ([0x00, 0x81, 0x00, 0x00, 0x00, 0x00, 0x00, 0x00], 2),
    ([0x00, 0xC0, 0x00, 0x00, 0x00, 0x00, 0x00, 0x00], 2),
    ([0x00, 0xFE, 0x00, 0x00, 0x00, 0x00, 0x00, 0x00], 2),
    ([0x00, 0xFF, 0x00, 0x00, 0x00, 0x00, 0x00, 0x00], 2),
    ([0x7E, 0xFF, 0x00, 0x00, 0x00, 0x00, 0x00, 0x00], 2),
    ([0x7F, 0xFF, 0x00, 0x00, 0x00, 0x00, 0x00, 0x00], 2),
    ([0x80, 0x00, 0x00, 0x00, 0x00, 0x00, 0x00, 0x00], 2),
    ([0x80, 0x01, 0x00, 0x00, 0x00, 0x00, 0x00, 0x00], 2),
    ([0xFF, 0xFE, 0x00, 0x00, 0x00, 0x00, 0x00, 0x00], 2),
    \<comment> \<open>2B - LE\<close>
    ([0x00, 0x00, 0x00, 0x00, 0x00, 0x00, 0x00, 0x00], 2),
    ([0x01, 0x00, 0x00, 0x00, 0x00, 0x00, 0x00, 0x00], 2),
    ([0x02, 0x00, 0x00, 0x00, 0x00, 0x00, 0x00, 0x00], 2),
    ([0x03, 0x00, 0x00, 0x00, 0x00, 0x00, 0x00, 0x00], 2),
    ([0x04, 0x00, 0x00, 0x00, 0x00, 0x00, 0x00, 0x00], 2),
    ([0x05, 0x00, 0x00, 0x00, 0x00, 0x00, 0x00, 0x00], 2),
    ([0x06, 0x00, 0x00, 0x00, 0x00, 0x00, 0x00, 0x00], 2),
    ([0x07, 0x00, 0x00, 0x00, 0x00, 0x00, 0x00, 0x00], 2),
    ([0x08, 0x00, 0x00, 0x00, 0x00, 0x00, 0x00, 0x00], 2),
    ([0x09, 0x00, 0x00, 0x00, 0x00, 0x00, 0x00, 0x00], 2),
    ([0x0A, 0x00, 0x00, 0x00, 0x00, 0x00, 0x00, 0x00], 2),
    ([0x0B, 0x00, 0x00, 0x00, 0x00, 0x00, 0x00, 0x00], 2),
    ([0x0C, 0x00, 0x00, 0x00, 0x00, 0x00, 0x00, 0x00], 2),
    ([0x0D, 0x00, 0x00, 0x00, 0x00, 0x00, 0x00, 0x00], 2),
    ([0x0E, 0x00, 0x00, 0x00, 0x00, 0x00, 0x00, 0x00], 2),
    ([0x0F, 0x00, 0x00, 0x00, 0x00, 0x00, 0x00, 0x00], 2),
    ([0x10, 0x00, 0x00, 0x00, 0x00, 0x00, 0x00, 0x00], 2),
    ([0x20, 0x00, 0x00, 0x00, 0x00, 0x00, 0x00, 0x00], 2),
    ([0x40, 0x00, 0x00, 0x00, 0x00, 0x00, 0x00, 0x00], 2),
    ([0x7E, 0x00, 0x00, 0x00, 0x00, 0x00, 0x00, 0x00], 2),
    ([0x7F, 0x00, 0x00, 0x00, 0x00, 0x00, 0x00, 0x00], 2),
    ([0x80, 0x00, 0x00, 0x00, 0x00, 0x00, 0x00, 0x00], 2),
    ([0x81, 0x00, 0x00, 0x00, 0x00, 0x00, 0x00, 0x00], 2),
    ([0xC0, 0x00, 0x00, 0x00, 0x00, 0x00, 0x00, 0x00], 2),
    ([0xFE, 0x00, 0x00, 0x00, 0x00, 0x00, 0x00, 0x00], 2),
    ([0xFF, 0x00, 0x00, 0x00, 0x00, 0x00, 0x00, 0x00], 2),
    ([0xFF, 0x7E, 0x00, 0x00, 0x00, 0x00, 0x00, 0x00], 2),
    ([0xFF, 0x7F, 0x00, 0x00, 0x00, 0x00, 0x00, 0x00], 2),
    ([0x00, 0x80, 0x00, 0x00, 0x00, 0x00, 0x00, 0x00], 2),
    ([0x01, 0x80, 0x00, 0x00, 0x00, 0x00, 0x00, 0x00], 2),
    ([0xFE, 0xFF, 0x00, 0x00, 0x00, 0x00, 0x00, 0x00], 2),
    \<comment> \<open>4B - NE\<close>
    ([0x00, 0x00, 0x00, 0x00, 0x00, 0x00, 0x00, 0x00], 4),
    ([0x01, 0x01, 0x01, 0x01, 0x00, 0x00, 0x00, 0x00], 4),
    ([0x80, 0x80, 0x80, 0x80, 0x00, 0x00, 0x00, 0x00], 4),
    ([0xFF, 0xFF, 0xFF, 0xFF, 0x00, 0x00, 0x00, 0x00], 4),
    \<comment> \<open>4B - BE\<close>
    ([0x00, 0x00, 0x00, 0x01, 0x00, 0x00, 0x00, 0x00], 4),
    ([0x00, 0x00, 0x00, 0x02, 0x00, 0x00, 0x00, 0x00], 4),
    ([0x00, 0x00, 0x00, 0x03, 0x00, 0x00, 0x00, 0x00], 4),
    ([0x00, 0x00, 0x00, 0x04, 0x00, 0x00, 0x00, 0x00], 4),
    ([0x00, 0x00, 0x00, 0x05, 0x00, 0x00, 0x00, 0x00], 4),
    ([0x00, 0x00, 0x00, 0x06, 0x00, 0x00, 0x00, 0x00], 4),
    ([0x00, 0x00, 0x00, 0x07, 0x00, 0x00, 0x00, 0x00], 4),
    ([0x00, 0x00, 0x00, 0x08, 0x00, 0x00, 0x00, 0x00], 4),
    ([0x00, 0x00, 0x00, 0x09, 0x00, 0x00, 0x00, 0x00], 4),
    ([0x00, 0x00, 0x00, 0x0A, 0x00, 0x00, 0x00, 0x00], 4),
    ([0x00, 0x00, 0x00, 0x0B, 0x00, 0x00, 0x00, 0x00], 4),
    ([0x00, 0x00, 0x00, 0x0C, 0x00, 0x00, 0x00, 0x00], 4),
    ([0x00, 0x00, 0x00, 0x0D, 0x00, 0x00, 0x00, 0x00], 4),
    ([0x00, 0x00, 0x00, 0x0E, 0x00, 0x00, 0x00, 0x00], 4),
    ([0x00, 0x00, 0x00, 0x0F, 0x00, 0x00, 0x00, 0x00], 4),
    ([0x00, 0x00, 0x00, 0x10, 0x00, 0x00, 0x00, 0x00], 4),
    ([0x00, 0x00, 0x00, 0x20, 0x00, 0x00, 0x00, 0x00], 4),
    ([0x00, 0x00, 0x00, 0x40, 0x00, 0x00, 0x00, 0x00], 4),
    ([0x00, 0x00, 0x00, 0x7E, 0x00, 0x00, 0x00, 0x00], 4),
    ([0x00, 0x00, 0x00, 0x7F, 0x00, 0x00, 0x00, 0x00], 4),
    ([0x00, 0x00, 0x00, 0x80, 0x00, 0x00, 0x00, 0x00], 4),
    ([0x00, 0x00, 0x00, 0x81, 0x00, 0x00, 0x00, 0x00], 4),
    ([0x00, 0x00, 0x00, 0xC0, 0x00, 0x00, 0x00, 0x00], 4),
    ([0x00, 0x00, 0x00, 0xFE, 0x00, 0x00, 0x00, 0x00], 4),
    ([0x00, 0x00, 0x00, 0xFF, 0x00, 0x00, 0x00, 0x00], 4),
    ([0x7E, 0xFF, 0xFF, 0xFF, 0x00, 0x00, 0x00, 0x00], 4),
    ([0x7F, 0xFF, 0xFF, 0xFF, 0x00, 0x00, 0x00, 0x00], 4),
    ([0x80, 0x00, 0x00, 0x00, 0x00, 0x00, 0x00, 0x00], 4),
    ([0x80, 0x00, 0x00, 0x01, 0x00, 0x00, 0x00, 0x00], 4),
    ([0xFF, 0xFF, 0xFF, 0xFE, 0x00, 0x00, 0x00, 0x00], 4),
    \<comment> \<open>4B - LE\<close>
    ([0x00, 0x00, 0x00, 0x00, 0x00, 0x00, 0x00, 0x00], 4),
    ([0x01, 0x00, 0x00, 0x00, 0x00, 0x00, 0x00, 0x00], 4),
    ([0x02, 0x00, 0x00, 0x00, 0x00, 0x00, 0x00, 0x00], 4),
    ([0x03, 0x00, 0x00, 0x00, 0x00, 0x00, 0x00, 0x00], 4),
    ([0x04, 0x00, 0x00, 0x00, 0x00, 0x00, 0x00, 0x00], 4),
    ([0x05, 0x00, 0x00, 0x00, 0x00, 0x00, 0x00, 0x00], 4),
    ([0x06, 0x00, 0x00, 0x00, 0x00, 0x00, 0x00, 0x00], 4),
    ([0x07, 0x00, 0x00, 0x00, 0x00, 0x00, 0x00, 0x00], 4),
    ([0x08, 0x00, 0x00, 0x00, 0x00, 0x00, 0x00, 0x00], 4),
    ([0x09, 0x00, 0x00, 0x00, 0x00, 0x00, 0x00, 0x00], 4),
    ([0x0A, 0x00, 0x00, 0x00, 0x00, 0x00, 0x00, 0x00], 4),
    ([0x0B, 0x00, 0x00, 0x00, 0x00, 0x00, 0x00, 0x00], 4),
    ([0x0C, 0x00, 0x00, 0x00, 0x00, 0x00, 0x00, 0x00], 4),
    ([0x0D, 0x00, 0x00, 0x00, 0x00, 0x00, 0x00, 0x00], 4),
    ([0x0E, 0x00, 0x00, 0x00, 0x00, 0x00, 0x00, 0x00], 4),
    ([0x0F, 0x00, 0x00, 0x00, 0x00, 0x00, 0x00, 0x00], 4),
    ([0x10, 0x00, 0x00, 0x00, 0x00, 0x00, 0x00, 0x00], 4),
    ([0x20, 0x00, 0x00, 0x00, 0x00, 0x00, 0x00, 0x00], 4),
    ([0x40, 0x00, 0x00, 0x00, 0x00, 0x00, 0x00, 0x00], 4),
    ([0x7E, 0x00, 0x00, 0x00, 0x00, 0x00, 0x00, 0x00], 4),
    ([0x7F, 0x00, 0x00, 0x00, 0x00, 0x00, 0x00, 0x00], 4),
    ([0x80, 0x00, 0x00, 0x00, 0x00, 0x00, 0x00, 0x00], 4),
    ([0x81, 0x00, 0x00, 0x00, 0x00, 0x00, 0x00, 0x00], 4),
    ([0xC0, 0x00, 0x00, 0x00, 0x00, 0x00, 0x00, 0x00], 4),
    ([0xFE, 0x00, 0x00, 0x00, 0x00, 0x00, 0x00, 0x00], 4),
    ([0xFF, 0x00, 0x00, 0x00, 0x00, 0x00, 0x00, 0x00], 4),
    ([0xFF, 0xFF, 0xFF, 0x7E, 0x00, 0x00, 0x00, 0x00], 4),
    ([0xFF, 0xFF, 0xFF, 0x7F, 0x00, 0x00, 0x00, 0x00], 4),
    ([0x00, 0x00, 0x00, 0x80, 0x00, 0x00, 0x00, 0x00], 4),
    ([0x01, 0x00, 0x00, 0x80, 0x00, 0x00, 0x00, 0x00], 4),
    ([0xFE, 0xFF, 0xFF, 0xFF, 0x00, 0x00, 0x00, 0x00], 4),
    \<comment> \<open>8B - NE\<close>
    ([0x00, 0x00, 0x00, 0x00, 0x00, 0x00, 0x00, 0x00], 8),
    ([0x01, 0x01, 0x01, 0x01, 0x01, 0x01, 0x01, 0x01], 8),
    ([0x80, 0x80, 0x80, 0x80, 0x80, 0x80, 0x80, 0x80], 8),
    ([0xFF, 0xFF, 0xFF, 0xFF, 0xFF, 0xFF, 0xFF, 0xFF], 8),
    \<comment> \<open>8B - BE\<close>
    ([0x00, 0x00, 0x00, 0x00, 0x00, 0x00, 0x00, 0x01], 8),
    ([0x00, 0x00, 0x00, 0x00, 0x00, 0x00, 0x00, 0x02], 8),
    ([0x00, 0x00, 0x00, 0x00, 0x00, 0x00, 0x00, 0x03], 8),
    ([0x00, 0x00, 0x00, 0x00, 0x00, 0x00, 0x00, 0x04], 8),
    ([0x00, 0x00, 0x00, 0x00, 0x00, 0x00, 0x00, 0x05], 8),
    ([0x00, 0x00, 0x00, 0x00, 0x00, 0x00, 0x00, 0x06], 8),
    ([0x00, 0x00, 0x00, 0x00, 0x00, 0x00, 0x00, 0x07], 8),
    ([0x00, 0x00, 0x00, 0x00, 0x00, 0x00, 0x00, 0x08], 8),
    ([0x00, 0x00, 0x00, 0x00, 0x00, 0x00, 0x00, 0x09], 8),
    ([0x00, 0x00, 0x00, 0x00, 0x00, 0x00, 0x00, 0x0A], 8),
    ([0x00, 0x00, 0x00, 0x00, 0x00, 0x00, 0x00, 0x0B], 8),
    ([0x00, 0x00, 0x00, 0x00, 0x00, 0x00, 0x00, 0x0C], 8),
    ([0x00, 0x00, 0x00, 0x00, 0x00, 0x00, 0x00, 0x0D], 8),
    ([0x00, 0x00, 0x00, 0x00, 0x00, 0x00, 0x00, 0x0E], 8),
    ([0x00, 0x00, 0x00, 0x00, 0x00, 0x00, 0x00, 0x0F], 8),
    ([0x00, 0x00, 0x00, 0x00, 0x00, 0x00, 0x00, 0x10], 8),
    ([0x00, 0x00, 0x00, 0x00, 0x00, 0x00, 0x00, 0x20], 8),
    ([0x00, 0x00, 0x00, 0x00, 0x00, 0x00, 0x00, 0x40], 8),
    ([0x00, 0x00, 0x00, 0x00, 0x00, 0x00, 0x00, 0x7E], 8),
    ([0x00, 0x00, 0x00, 0x00, 0x00, 0x00, 0x00, 0x7F], 8),
    ([0x00, 0x00, 0x00, 0x00, 0x00, 0x00, 0x00, 0x80], 8),
    ([0x00, 0x00, 0x00, 0x00, 0x00, 0x00, 0x00, 0x81], 8),
    ([0x00, 0x00, 0x00, 0x00, 0x00, 0x00, 0x00, 0xC0], 8),
    ([0x00, 0x00, 0x00, 0x00, 0x00, 0x00, 0x00, 0xFE], 8),
    ([0x00, 0x00, 0x00, 0x00, 0x00, 0x00, 0x00, 0xFF], 8),
    ([0x7E, 0xFF, 0xFF, 0xFF, 0xFF, 0xFF, 0xFF, 0xFF], 8),
    ([0x7F, 0xFF, 0xFF, 0xFF, 0xFF, 0xFF, 0xFF, 0xFF], 8),
    ([0x80, 0x00, 0x00, 0x00, 0x00, 0x00, 0x00, 0x00], 8),
    ([0x80, 0x00, 0x00, 0x00, 0x00, 0x00, 0x00, 0x01], 8),
    ([0xFF, 0xFF, 0xFF, 0xFF, 0xFF, 0xFF, 0xFF, 0xFE], 8),
    \<comment> \<open>8B - LE\<close>
    ([0x00, 0x00, 0x00, 0x00, 0x00, 0x00, 0x00, 0x00], 8),
    ([0x01, 0x00, 0x00, 0x00, 0x00, 0x00, 0x00, 0x00], 8),
    ([0x02, 0x00, 0x00, 0x00, 0x00, 0x00, 0x00, 0x00], 8),
    ([0x03, 0x00, 0x00, 0x00, 0x00, 0x00, 0x00, 0x00], 8),
    ([0x04, 0x00, 0x00, 0x00, 0x00, 0x00, 0x00, 0x00], 8),
    ([0x05, 0x00, 0x00, 0x00, 0x00, 0x00, 0x00, 0x00], 8),
    ([0x06, 0x00, 0x00, 0x00, 0x00, 0x00, 0x00, 0x00], 8),
    ([0x07, 0x00, 0x00, 0x00, 0x00, 0x00, 0x00, 0x00], 8),
    ([0x08, 0x00, 0x00, 0x00, 0x00, 0x00, 0x00, 0x00], 8),
    ([0x09, 0x00, 0x00, 0x00, 0x00, 0x00, 0x00, 0x00], 8),
    ([0x0A, 0x00, 0x00, 0x00, 0x00, 0x00, 0x00, 0x00], 8),
    ([0x0B, 0x00, 0x00, 0x00, 0x00, 0x00, 0x00, 0x00], 8),
    ([0x0C, 0x00, 0x00, 0x00, 0x00, 0x00, 0x00, 0x00], 8),
    ([0x0D, 0x00, 0x00, 0x00, 0x00, 0x00, 0x00, 0x00], 8),
    ([0x0E, 0x00, 0x00, 0x00, 0x00, 0x00, 0x00, 0x00], 8),
    ([0x0F, 0x00, 0x00, 0x00, 0x00, 0x00, 0x00, 0x00], 8),
    ([0x10, 0x00, 0x00, 0x00, 0x00, 0x00, 0x00, 0x00], 8),
    ([0x20, 0x00, 0x00, 0x00, 0x00, 0x00, 0x00, 0x00], 8),
    ([0x40, 0x00, 0x00, 0x00, 0x00, 0x00, 0x00, 0x00], 8),
    ([0x7E, 0x00, 0x00, 0x00, 0x00, 0x00, 0x00, 0x00], 8),
    ([0x7F, 0x00, 0x00, 0x00, 0x00, 0x00, 0x00, 0x00], 8),
    ([0x80, 0x00, 0x00, 0x00, 0x00, 0x00, 0x00, 0x00], 8),
    ([0x81, 0x00, 0x00, 0x00, 0x00, 0x00, 0x00, 0x00], 8),
    ([0xC0, 0x00, 0x00, 0x00, 0x00, 0x00, 0x00, 0x00], 8),
    ([0xFE, 0x00, 0x00, 0x00, 0x00, 0x00, 0x00, 0x00], 8),
    ([0xFF, 0x00, 0x00, 0x00, 0x00, 0x00, 0x00, 0x00], 8),
    ([0xFF, 0xFF, 0xFF, 0xFF, 0xFF, 0xFF, 0xFF, 0x7E], 8),
    ([0xFF, 0xFF, 0xFF, 0xFF, 0xFF, 0xFF, 0xFF, 0x7F], 8),
    ([0x00, 0x00, 0x00, 0x00, 0x00, 0x00, 0x00, 0x80], 8),
    ([0x01, 0x00, 0x00, 0x00, 0x00, 0x00, 0x00, 0x80], 8),
    ([0xFE, 0xFF, 0xFF, 0xFF, 0xFF, 0xFF, 0xFF, 0xFF], 8)
  ]"

definition mangle_Magic :: "run_t \<Rightarrow> bool \<Rightarrow> run_t" where
  "mangle_Magic run printable =
     (let (off, run1) = util_rndGet 0 (dynamicFileSz run - 1) run;
          (choice, run2) = util_rndGet 0 (length mangleMagicVals - 1) run1;
          run3 = mangle_Overwrite run2 (fst (mangleMagicVals ! choice)) off
                   (snd (mangleMagicVals ! choice))
      in if printable then util_turnToPrintable off (snd (mangleMagicVals ! choice)) run3
         else run3)"

definition mangle_MemSetWithVal :: "run_t \<Rightarrow> byte \<Rightarrow> run_t" where
  "mangle_MemSetWithVal run val =
     (let (off, run1) = util_rndGet 0 (dynamicFileSz run - 1) run;
          (sz, run2) = util_rndGet 1 (dynamicFileSz run1 - off) run1
      in run2\<lparr>dynamicFile := memset (dynamicFile run2) off val sz\<rparr>)"

definition mangle_MemSet :: "run_t \<Rightarrow> bool \<Rightarrow> run_t" where
  "mangle_MemSet run printable =
     (let (val, run1) = (if printable then util_rndPrintable run
                         else (let (v, r) = util_rndGet 0 255 run in (of_nat v, r)))
      in mangle_MemSetWithVal run1 val)"

definition mangle_Random :: "run_t \<Rightarrow> bool \<Rightarrow> run_t" where
  "mangle_Random run printable =
     (let (off, run1) = util_rndGet 0 (dynamicFileSz run - 1) run;
          (len, run2) = util_rndGet 1 (dynamicFileSz run1 - off) run1;
          (bs, run3) = (if printable then util_rndBufPrintable len run2 else util_rndBuf len run2)
      in run3\<lparr>dynamicFile := store (dynamicFile run3) off bs len\<rparr>)"

text \<open>\<^verbatim>\<open>memcpy(&val, &run->dynamicFile[off], sizeof(val))\<close> and the cast
  \<^verbatim>\<open>(uint8_t*)&val\<close> on a little-endian host, and \<^verbatim>\<open>__builtin_bswap\<close> for a value
  of \<open>n\<close> bytes.\<close>

fun word_of_le :: "byte list \<Rightarrow> 'a::len word" where
  "word_of_le [] = 0"
| "word_of_le (b # bs) = ucast b + 256 * word_of_le bs"

fun bytes_le :: "nat \<Rightarrow> 'a::len word \<Rightarrow> byte list" where
  "bytes_le 0 w = []"
| "bytes_le (Suc n) w = ucast w # bytes_le n (drop_bit 8 w)"

definition load_le :: "(nat \<Rightarrow> byte) \<Rightarrow> nat \<Rightarrow> nat \<Rightarrow> 'a::len word" where
  "load_le m off n = word_of_le (map m [off..<off + n])"

definition bswap :: "nat \<Rightarrow> 'a::len word \<Rightarrow> 'a::len word" where
  "bswap n w = word_of_le (rev (bytes_le n w))"

text \<open>The \<^verbatim>\<open>int delta\<close> of \<^verbatim>\<open>mangle_AddSubWithRange\<close>, from the value \<open>v\<close> that
  \<^verbatim>\<open>util_rndGet(0, 8192)\<close> returned.\<close>

definition addsub_delta :: "nat \<Rightarrow> int" where
  "addsub_delta v = int v - 4096"

text \<open>\<^verbatim>\<open>val += delta\<close> at the width of \<^verbatim>\<open>val\<close>, on the native path or between the
  two byte swaps, as the low bit of \<^verbatim>\<open>util_rnd64()\<close> decides.\<close>

definition addsub_val :: "nat \<Rightarrow> 64 word \<Rightarrow> int \<Rightarrow> 'a::len word \<Rightarrow> 'a::len word" where
  "addsub_val n r delta val =
     (if r AND 1 \<noteq> 0 then val + of_int delta
      else bswap n (bswap n val + of_int delta))"

text \<open>The \<^verbatim>\<open>default\<close> branch of the switch calls \<^verbatim>\<open>LOG_F\<close>, which aborts the process;
  \<^verbatim>\<open>mangle_AddSub\<close>, the only caller, passes 1, 2, 4 or 8.\<close>

definition mangle_AddSubWithRange :: "run_t \<Rightarrow> nat \<Rightarrow> nat \<Rightarrow> run_t" where
  "mangle_AddSubWithRange run off varLen =
     (let (v, run1) = util_rndGet 0 8192 run;
          delta = addsub_delta v
      in if varLen = 1 then
           run1\<lparr>dynamicFile := (dynamicFile run1)(off := dynamicFile run1 off + of_int delta)\<rparr>
         else if varLen = 2 then
           (let val = (load_le (dynamicFile run1) off 2 :: 16 word);
                (r, run2) = util_rnd64 run1
            in mangle_Overwrite run2 (bytes_le 2 (addsub_val 2 r delta val)) off varLen)
         else if varLen = 4 then
           (let val = (load_le (dynamicFile run1) off 4 :: 32 word);
                (r, run2) = util_rnd64 run1
            in mangle_Overwrite run2 (bytes_le 4 (addsub_val 4 r delta val)) off varLen)
         else if varLen = 8 then
           (let val = (load_le (dynamicFile run1) off 8 :: 64 word);
                (r, run2) = util_rnd64 run1
            in mangle_Overwrite run2 (bytes_le 8 (addsub_val 8 r delta val)) off varLen)
         else run1)"

definition mangle_AddSub :: "run_t \<Rightarrow> bool \<Rightarrow> run_t" where
  "mangle_AddSub run printable =
     (let (off, run1) = util_rndGet 0 (dynamicFileSz run - 1) run;
          (e, run2) = util_rndGet 0 3 run1;
          varLen0 = (2::nat) ^ e;
          varLen = (if dynamicFileSz run2 - off < varLen0 then 1 else varLen0);
          run3 = mangle_AddSubWithRange run2 off varLen
      in if printable then util_turnToPrintable off varLen run3 else run3)"

text \<open>The C operator \<^verbatim>\<open>%\<close> on \<^verbatim>\<open>int\<close> truncates towards zero: the printable variants
  compute in \<^verbatim>\<open>int\<close> after integer promotion and store the low 8 bits.\<close>

definition c_rem :: "int \<Rightarrow> int \<Rightarrow> int" where
  "c_rem a b = sgn a * (\<bar>a\<bar> mod \<bar>b\<bar>)"

definition mangle_IncByte :: "run_t \<Rightarrow> bool \<Rightarrow> run_t" where
  "mangle_IncByte run printable =
     (let (off, run1) = util_rndGet 0 (dynamicFileSz run - 1) run;
          b = dynamicFile run1 off
      in if printable
         then run1\<lparr>dynamicFile := (dynamicFile run1)(off := of_int (c_rem (uint b - 32 + 1) 95 + 32))\<rparr>
         else run1\<lparr>dynamicFile := (dynamicFile run1)(off := b + 1)\<rparr>)"

definition mangle_DecByte :: "run_t \<Rightarrow> bool \<Rightarrow> run_t" where
  "mangle_DecByte run printable =
     (let (off, run1) = util_rndGet 0 (dynamicFileSz run - 1) run;
          b = dynamicFile run1 off
      in if printable
         then run1\<lparr>dynamicFile := (dynamicFile run1)(off := of_int (c_rem (uint b - 32 + 94) 95 + 32))\<rparr>
         else run1\<lparr>dynamicFile := (dynamicFile run1)(off := b - 1)\<rparr>)"

definition mangle_NegByte :: "run_t \<Rightarrow> bool \<Rightarrow> run_t" where
  "mangle_NegByte run printable =
     (let (off, run1) = util_rndGet 0 (dynamicFileSz run - 1) run;
          b = dynamicFile run1 off
      in if printable
         then run1\<lparr>dynamicFile := (dynamicFile run1)(off := of_int (94 - (uint b - 32) + 32))\<rparr>
         else run1\<lparr>dynamicFile := (dynamicFile run1)(off := NOT b)\<rparr>)"

definition mangle_CloneByte :: "run_t \<Rightarrow> bool \<Rightarrow> run_t" where
  "mangle_CloneByte run printable =
     (let (off1, run1) = util_rndGet 0 (dynamicFileSz run - 1) run;
          (off2, run2) = util_rndGet 0 (dynamicFileSz run1 - 1) run1;
          tmp = dynamicFile run2 off1;
          run3 = run2\<lparr>dynamicFile := (dynamicFile run2)(off1 := dynamicFile run2 off2)\<rparr>
      in run3\<lparr>dynamicFile := (dynamicFile run3)(off2 := tmp)\<rparr>)"

definition mangle_Expand :: "run_t \<Rightarrow> bool \<Rightarrow> run_t" where
  "mangle_Expand run printable =
     (let (off, run1) = util_rndGet 0 (dynamicFileSz run - 1) run;
          (len, run2) = util_rndGet 1 (dynamicFileSz run1 - off) run1
      in mangle_Inflate run2 off len printable)"

definition mangle_Shrink :: "run_t \<Rightarrow> bool \<Rightarrow> run_t" where
  "mangle_Shrink run printable =
     (if dynamicFileSz run \<le> 1 then run
      else
        let (len, run1) = util_rndGet 1 (dynamicFileSz run - 1) run;
            (off, run2) = util_rndGet 0 len run1;
            run3 = input_setSize run2 (dynamicFileSz run2 - len)
        in mangle_Move run3 (off + len) off (dynamicFileSz run3))"

text \<open>In \<^verbatim>\<open>mangle_Resize\<close> the \<^verbatim>\<open>default\<close> branch of the switch calls \<^verbatim>\<open>LOG_F\<close>
  (it aborts) and is not reached: \<open>v\<close> comes from \<^verbatim>\<open>util_rndGet(0, 16)\<close>. The model
  leaves \<^verbatim>\<open>newsz\<close> at its initial 0 there.\<close>

definition mangle_Resize :: "run_t \<Rightarrow> bool \<Rightarrow> run_t" where
  "mangle_Resize run printable =
     (let oldsz = dynamicFileSz run;
          (v, run1) = util_rndGet 0 16 run;
          (newsz0, run2) =
             (if v = 0 then (let (n, r) = util_rndGet 1 (maxFileSz run1) run1 in (int n, r))
              else if 1 \<le> v \<and> v \<le> 8 then (int oldsz + int v, run1)
              else if 9 \<le> v \<and> v \<le> 16 then (int oldsz + 8 - int v, run1)
              else (0, run1));
          newsz1 = (if newsz0 < 1 then 1 else newsz0);
          newsz = (if newsz1 > int (maxFileSz run2) then int (maxFileSz run2) else newsz1);
          run3 = input_setSize run2 (nat newsz)
      in if newsz > int oldsz then
           (let (bs, run4) = (if printable then util_rndBufPrintable (nat (newsz - int oldsz)) run3
                              else util_rndBuf (nat (newsz - int oldsz)) run3)
            in run4\<lparr>dynamicFile := store (dynamicFile run4) oldsz bs (nat (newsz - int oldsz))\<rparr>)
         else run3)"

text \<open>\<^verbatim>\<open>snprintf(buf, sizeof(buf), "%" PRId64, x)\<close>: the decimal text of a signed 64-bit
  value, at most 20 characters, so the 32-byte \<^verbatim>\<open>buf\<close> never truncates it;
  \<^verbatim>\<open>strlen(buf)\<close> is its length.\<close>

fun dec_digits :: "nat \<Rightarrow> byte list" where
  "dec_digits n =
     (if n < 10 then [of_nat (48 + n)] else dec_digits (n div 10) @ [of_nat (48 + n mod 10)])"

declare dec_digits.simps [simp del]

definition snprintf_PRId64 :: "64 word \<Rightarrow> byte list" where
  "snprintf_PRId64 x =
     (if sint x < 0 then 0x2D # dec_digits (nat (- sint x)) else dec_digits (nat (sint x)))"

definition mangle_ASCIIVal :: "run_t \<Rightarrow> bool \<Rightarrow> run_t" where
  "mangle_ASCIIVal run printable =
     (let (x, run1) = util_rnd64 run;
          buf = snprintf_PRId64 x;
          (off, run2) = util_rndGet 0 (dynamicFileSz run1 - 1) run1
      in mangle_Overwrite run2 buf off (length buf))"

section \<open>The mutation session\<close>

definition mangleFuncs :: "(run_t \<Rightarrow> bool \<Rightarrow> run_t) list" where
  "mangleFuncs =
     [mangle_Bit, mangle_Bytes, mangle_Magic, mangle_IncByte, mangle_DecByte, mangle_NegByte,
      mangle_AddSub, mangle_Dictionary, mangle_DictionaryInsert, mangle_MemMove, mangle_MemSet,
      mangle_Random, mangle_CloneByte, mangle_Expand, mangle_Shrink, mangle_ASCIIVal]"

text \<open>The \<^verbatim>\<open>for\<close> loop of \<^verbatim>\<open>mangle_mangleContent\<close>, by the number of iterations left.\<close>

fun mangle_loop :: "nat \<Rightarrow> run_t \<Rightarrow> run_t" where
  "mangle_loop 0 run = run"
| "mangle_loop (Suc n) run =
     (let (choice, run1) = util_rndGet 0 (length mangleFuncs - 1) run
      in mangle_loop n ((mangleFuncs ! choice) run1 (only_printable run1)))"

definition mangle_mangleContent :: "run_t \<Rightarrow> run_t" where
  "mangle_mangleContent run =
     (if mutationsPerRun run = 0 then run
      else
        let run1 = mangle_Resize run (only_printable run);
            (changesCnt, run2) = util_rndGet 1 (global_mutationsPerRun run1) run1
        in mangle_loop changesCnt run2)"

section \<open>Concrete contexts\<close>

text \<open>A context for running the operators on given data: the store holds \<open>bs\<close> (zero
  beyond it), the logical size is \<open>sz\<close>, the capacity \<open>cap\<close>, the dictionary \<open>dict\<close>, and
  the generator will hand out the draws of \<open>tape\<close> (zero once they are used up). With
  \<^verbatim>\<open>util_rndGet(lo, hi)\<close> a draw \<open>x < hi - lo + 1\<close> yields \<open>lo + x\<close>.\<close>

definition mem_of :: "byte list \<Rightarrow> nat \<Rightarrow> byte" where
  "mem_of bs = (\<lambda>i. if i < length bs then bs ! i else 0)"

definition tape_of :: "64 word list \<Rightarrow> nat \<Rightarrow> 64 word" where
  "tape_of xs = (\<lambda>i. if i < length xs then xs ! i else 0)"

definition ctx :: "byte list \<Rightarrow> nat \<Rightarrow> nat \<Rightarrow> byte list list \<Rightarrow> 64 word list \<Rightarrow> run_t" where
  "ctx bs sz cap dict tape =
     \<lparr>dynamicFile = mem_of bs, dynamicFileSz = sz, maxFileSz = cap,
      dictionaryCnt = length dict, dictq = dict, mutationsPerRun = 1,
      global_mutationsPerRun = 1, only_printable = False,
      rndTape = tape_of tape, rndPos = 0\<rparr>"

text \<open>The logical contents of the buffer: the bytes at the offsets \<open>[0, dynamicFileSz)\<close>.\<close>

definition contents :: "run_t \<Rightarrow> byte list" where
  "contents run = map (dynamicFile run) [0..<dynamicFileSz run]"
section \<open>Predicates of the claims\<close>

text \<open>A printable byte lies in \<open>[0x20, 0x7E]\<close>.\<close>

definition is_printable :: "byte \<Rightarrow> bool" where
  "is_printable b = (0x20 \<le> b \<and> b \<le> 0x7E)"

text \<open>The size invariant of the context: \<open>1 \<le> size \<le> maxFileSz\<close>.\<close>

definition size_ok :: "run_t \<Rightarrow> bool" where
  "size_ok run = (1 \<le> dynamicFileSz run \<and> dynamicFileSz run \<le> maxFileSz run)"

text \<open>Every byte of the buffer, at the offsets \<open>[0, size)\<close>, is printable; every byte of
  the backing store, at the offsets \<open>[0, maxFileSz)\<close>, is printable; the dictionary has at
  least \<^verbatim>\<open>dictionaryCnt\<close> entries and all its entries consist of printable bytes.\<close>

definition buffer_printable :: "run_t \<Rightarrow> bool" where
  "buffer_printable run = list_all is_printable (contents run)"

definition store_printable :: "run_t \<Rightarrow> bool" where
  "store_printable run = list_all is_printable (map (dynamicFile run) [0..<maxFileSz run])"

definition dict_printable :: "run_t \<Rightarrow> bool" where
  "dict_printable run =
     (dictionaryCnt run \<le> length (dictq run) \<and> list_all (list_all is_printable) (dictq run))"

text \<open>The number of bytes that \<^verbatim>\<open>mangle_Move\<close> hands to \<^verbatim>\<open>memmove\<close>, none when it
  returns early.\<close>

definition move_len :: "run_t \<Rightarrow> nat \<Rightarrow> nat \<Rightarrow> nat \<Rightarrow> nat" where
  "move_len run off_from off_to len =
     (if off_from < dynamicFileSz run \<and> off_to < dynamicFileSz run
      then min len (min (dynamicFileSz run - off_from - 1) (dynamicFileSz run - off_to - 1))
      else 0)"

text \<open>Two contexts agree on everything but the buffer, its size and the position of the
  generator.\<close>

definition same_globals :: "run_t \<Rightarrow> run_t \<Rightarrow> bool" where
  "same_globals run run' =
     (maxFileSz run' = maxFileSz run \<and> dictionaryCnt run' = dictionaryCnt run \<and>
      dictq run' = dictq run \<and> mutationsPerRun run' = mutationsPerRun run \<and>
      global_mutationsPerRun run' = global_mutationsPerRun run \<and>
      only_printable run' = only_printable run \<and> rndTape run' = rndTape run)"

text \<open>The bytes of a memory below the offset \<open>N\<close> are printable.\<close>

definition printable_upto :: "nat \<Rightarrow> (nat \<Rightarrow> byte) \<Rightarrow> bool" where
  "printable_upto N m = (\<forall>i<N. is_printable (m i))"

text \<open>The bytes that \<^verbatim>\<open>util_rndBuf\<close> and \<^verbatim>\<open>util_rndBufPrintable\<close> produce from the
  draws at the positions \<open>pos, pos + 1, ...\<close> of the tape.\<close>

definition rnd_bytes :: "(nat \<Rightarrow> 64 word) \<Rightarrow> nat \<Rightarrow> nat \<Rightarrow> byte list" where
  "rnd_bytes tape pos n = map (\<lambda>k. ucast (tape (pos + k))) [0..<n]"

definition rnd_printable_bytes :: "(nat \<Rightarrow> 64 word) \<Rightarrow> nat \<Rightarrow> nat \<Rightarrow> byte list" where
  "rnd_printable_bytes tape pos n = map (\<lambda>k. of_nat (32 + unat (tape (pos + k)) mod 95)) [0..<n]"

text \<open>The new size of the Resize step in the words of the specification: \<open>rnd(1, maxFileSz)\<close>
  (its result is \<open>r\<close>) when \<open>v = 0\<close>, \<open>oldSize + v\<close> when \<open>1 \<le> v \<le> 8\<close>, \<open>oldSize + 8 - v\<close>
  otherwise, clamped to \<open>[1, maxFileSz]\<close>.\<close>

definition resize_newSize :: "nat \<Rightarrow> nat \<Rightarrow> nat \<Rightarrow> nat \<Rightarrow> nat" where
  "resize_newSize oldSize maxSz v r =
     nat (max 1 (min (int maxSz)
       (if v = 0 then int r
        else if 1 \<le> v \<and> v \<le> 8 then int oldSize + int v
        else int oldSize + 8 - int v)))"


text \<open>The magic table in the words of the specification. The 1-byte magics; an entry of
  width \<open>w\<close> is its bytes padded with zeros to the 8 bytes of \<^verbatim>\<open>val\<close>; the native group
  repeats a byte \<open>w\<close> times; a big-endian group prefixes each magic of a list with zeros and
  adds the five boundary values; a little-endian group is its mirror image.\<close>

definition one_byte_magics :: "byte list" where
  "one_byte_magics =
     [0x00, 0x01, 0x02, 0x03, 0x04, 0x05, 0x06, 0x07, 0x08, 0x09, 0x0A, 0x0B, 0x0C, 0x0D,
      0x0E, 0x0F, 0x10, 0x20, 0x40, 0x7E, 0x7F, 0x80, 0x81, 0xC0, 0xFE, 0xFF]"

definition magic_entry :: "nat \<Rightarrow> byte list \<Rightarrow> byte list \<times> nat" where
  "magic_entry w bs = (bs @ replicate (8 - length bs) 0, w)"

definition magic_native :: "nat \<Rightarrow> (byte list \<times> nat) list" where
  "magic_native w = map (\<lambda>b. magic_entry w (replicate w b)) [0x00, 0x01, 0x80, 0xFF]"

definition magic_be_boundaries :: "nat \<Rightarrow> byte list list" where
  "magic_be_boundaries w =
     [0x7E # replicate (w - 1) 0xFF, 0x7F # replicate (w - 1) 0xFF,
      0x80 # replicate (w - 1) 0x00, 0x80 # replicate (w - 2) 0x00 @ [0x01],
      replicate (w - 1) 0xFF @ [0xFE]]"

definition magic_be :: "byte list \<Rightarrow> nat \<Rightarrow> (byte list \<times> nat) list" where
  "magic_be ms w =
     map (\<lambda>m. magic_entry w (replicate (w - 1) 0x00 @ [m])) ms
     @ map (magic_entry w) (magic_be_boundaries w)"

definition magic_le :: "byte list \<Rightarrow> nat \<Rightarrow> (byte list \<times> nat) list" where
  "magic_le ms w =
     map (\<lambda>m. magic_entry w (m # replicate (w - 1) 0x00)) ms
     @ map (\<lambda>bs. magic_entry w (rev bs)) (magic_be_boundaries w)"

text \<open>The ten groups as the specification builds them, every big-endian group from each of
  the 26 1-byte magics.\<close>

definition magic_groups_spec :: "(byte list \<times> nat) list list" where
  "magic_groups_spec =
     [map (\<lambda>m. magic_entry 1 [m]) one_byte_magics,
      magic_native 2, magic_be one_byte_magics 2, magic_le one_byte_magics 2,
      magic_native 4, magic_be one_byte_magics 4, magic_le one_byte_magics 4,
      magic_native 8, magic_be one_byte_magics 8, magic_le one_byte_magics 8]"

text \<open>The ten groups with every big-endian group built from the 25 non-zero 1-byte magics
  only.\<close>

definition magic_groups :: "(byte list \<times> nat) list list" where
  "magic_groups =
     [map (\<lambda>m. magic_entry 1 [m]) one_byte_magics,
      magic_native 2, magic_be (filter (\<lambda>m. m \<noteq> 0x00) one_byte_magics) 2, magic_le one_byte_magics 2,
      magic_native 4, magic_be (filter (\<lambda>m. m \<noteq> 0x00) one_byte_magics) 4, magic_le one_byte_magics 4,
      magic_native 8, magic_be (filter (\<lambda>m. m \<noteq> 0x00) one_byte_magics) 8, magic_le one_byte_magics 8]"
section \<open>Effects of the collaborators and the primitives\<close>

lemma is_printable_unat: "is_printable b \<longleftrightarrow> 32 \<le> unat b \<and> unat b \<le> 126"
  by (simp add: is_printable_def word_le_nat_alt)

lemma is_printable_uint: "is_printable b \<longleftrightarrow> 32 \<le> uint b \<and> uint b \<le> 126"
  by (simp add: is_printable_def word_le_def)

lemma is_printable_of_nat: "32 \<le> v \<Longrightarrow> v \<le> 126 \<Longrightarrow> is_printable (of_nat v)"
  by (simp add: is_printable_unat unat_of_nat)

lemma is_printable_of_int: "32 \<le> z \<Longrightarrow> z \<le> 126 \<Longrightarrow> is_printable (of_int z)"
  by (simp add: is_printable_uint uint_word_of_int)

lemma is_printable_turn_byte: "is_printable (turn_byte b)"
proof -
  have "unat (b mod 95) < 95"
    by (simp add: unat_mod)
  then have "unat (b mod 95 + 0x20) = unat (b mod 95) + 32"
    by (simp add: unat_word_ariths)
  then show ?thesis
    using \<open>unat (b mod 95) < 95\<close>
    by (auto simp: turn_byte_def is_printable_unat not_less word_le_nat_alt word_less_nat_alt)
qed

lemma turn_byte_printable: "is_printable b \<Longrightarrow> turn_byte b = b"
  by (auto simp: turn_byte_def is_printable_def)

lemma fst_util_rnd64 [simp]: "fst (util_rnd64 run) = rndTape run (rndPos run)"
  by (simp add: util_rnd64_def)

lemma snd_util_rnd64 [simp]: "snd (util_rnd64 run) = run\<lparr>rndPos := rndPos run + 1\<rparr>"
  by (simp add: util_rnd64_def)

lemma snd_util_rndGet [simp]: "snd (util_rndGet lo hi run) = run\<lparr>rndPos := rndPos run + 1\<rparr>"
  by (simp add: util_rndGet_def split_def)

lemma util_rndGet_ge: "lo \<le> fst (util_rndGet lo hi run)"
  by (simp add: util_rndGet_def split_def)

lemma util_rndGet_le: "lo \<le> hi \<Longrightarrow> fst (util_rndGet lo hi run) \<le> hi"
proof -
  assume "lo \<le> hi"
  have "unat (rndTape run (rndPos run)) mod (hi - lo + 1) < hi - lo + 1"
    by simp
  with \<open>lo \<le> hi\<close> have "lo + unat (rndTape run (rndPos run)) mod (hi - lo + 1) \<le> hi"
    by linarith
  then show ?thesis
    by (simp add: util_rndGet_def split_def)
qed

lemma snd_util_rndPrintable [simp]:
  "snd (util_rndPrintable run) = run\<lparr>rndPos := rndPos run + 1\<rparr>"
  by (simp add: util_rndPrintable_def split_def)

lemma util_rndPrintable_printable: "is_printable (fst (util_rndPrintable run))"
  using util_rndGet_ge [of 32 126 run] util_rndGet_le [of 32 126 run]
  by (simp add: util_rndPrintable_def split_def is_printable_of_nat)

lemma snd_util_rndBuf [simp]: "snd (util_rndBuf n run) = run\<lparr>rndPos := rndPos run + n\<rparr>"
  by (induction n arbitrary: run) (simp_all add: split_def)

lemma length_util_rndBuf [simp]: "length (fst (util_rndBuf n run)) = n"
  by (induction n arbitrary: run) (simp_all add: split_def)

lemma snd_util_rndBufPrintable [simp]:
  "snd (util_rndBufPrintable n run) = run\<lparr>rndPos := rndPos run + n\<rparr>"
  by (induction n arbitrary: run) (simp_all add: split_def)

lemma length_util_rndBufPrintable [simp]: "length (fst (util_rndBufPrintable n run)) = n"
  by (induction n arbitrary: run) (simp_all add: split_def)

lemma util_rndBufPrintable_printable:
  "list_all is_printable (fst (util_rndBufPrintable n run))"
  by (induction n arbitrary: run) (simp_all add: split_def util_rndPrintable_printable)

lemma store_printable_iff:
  "store_printable run \<longleftrightarrow> (\<forall>i<maxFileSz run. is_printable (dynamicFile run i))"
  by (simp add: store_printable_def list_all_length)

lemma buffer_printable_iff:
  "buffer_printable run \<longleftrightarrow> (\<forall>i<dynamicFileSz run. is_printable (dynamicFile run i))"
  by (simp add: buffer_printable_def contents_def list_all_length)

lemma dict_printable_nth:
  "dict_printable run \<Longrightarrow> c < dictionaryCnt run \<Longrightarrow> k < length (dictq run ! c) \<Longrightarrow>
   is_printable (dictq run ! c ! k)"
  by (simp add: dict_printable_def list_all_length)

lemma memmove_0 [simp]: "memmove m dst src 0 = m"
  by (rule ext) (auto simp: memmove_def)

lemma mangle_Overwrite_eq:
  "mangle_Overwrite run src off sz =
     run\<lparr>dynamicFile := store (dynamicFile run) off src (min sz (dynamicFileSz run - off))\<rparr>"
  by (simp add: mangle_Overwrite_def Let_def min_def)

lemma mangle_Move_eq:
  "mangle_Move run off_from off_to len =
     run\<lparr>dynamicFile := memmove (dynamicFile run) off_to off_from (move_len run off_from off_to len)\<rparr>"
proof (cases "off_from < dynamicFileSz run \<and> off_to < dynamicFileSz run")
  case True
  then have "nat (int (dynamicFileSz run) - int off_from - 1) = dynamicFileSz run - off_from - 1"
    and "nat (int (dynamicFileSz run) - int off_to - 1) = dynamicFileSz run - off_to - 1"
    by linarith+
  with True show ?thesis
    by (auto simp: mangle_Move_def move_len_def Let_def min_def)
next
  case False
  then show ?thesis
    by (auto simp: mangle_Move_def move_len_def)
qed

lemma move_len_from: "off_from < dynamicFileSz run \<Longrightarrow>
   off_from + move_len run off_from off_to len \<le> dynamicFileSz run - 1"
  by (auto simp: move_len_def)

lemma move_len_to: "off_to < dynamicFileSz run \<Longrightarrow>
   off_to + move_len run off_from off_to len \<le> dynamicFileSz run - 1"
  by (auto simp: move_len_def)

lemma move_len_0: "\<not> (off_from < dynamicFileSz run \<and> off_to < dynamicFileSz run) \<Longrightarrow>
   move_len run off_from off_to len = 0"
  by (auto simp: move_len_def)

lemma mangle_Inflate_eq:
  "mangle_Inflate run off len printable =
     (if dynamicFileSz run \<ge> maxFileSz run then run
      else
        let len1 = min len (maxFileSz run - dynamicFileSz run);
            run1 = run\<lparr>dynamicFileSz := dynamicFileSz run + len1\<rparr>
        in run\<lparr>dynamicFileSz := dynamicFileSz run + len1,
               rndPos := rndPos run + len1,
               dynamicFile :=
                 store (memmove (dynamicFile run) (off + len1) off
                          (move_len run1 off (off + len1) (dynamicFileSz run + len1)))
                   off
                   (fst (if printable then util_rndBufPrintable len1
                            (run1\<lparr>dynamicFile := memmove (dynamicFile run) (off + len1) off
                                (move_len run1 off (off + len1) (dynamicFileSz run + len1))\<rparr>)
                         else util_rndBuf len1
                            (run1\<lparr>dynamicFile := memmove (dynamicFile run) (off + len1) off
                                (move_len run1 off (off + len1) (dynamicFileSz run + len1))\<rparr>)))
                   len1\<rparr>)"
  by (simp add: mangle_Inflate_def Let_def split_def input_setSize_def mangle_Move_eq min_def)

lemma util_rndGet_le0: "fst (util_rndGet 0 hi run) \<le> hi"
  by (rule util_rndGet_le) simp

lemma util_rndGet_off: "0 < n \<Longrightarrow> fst (util_rndGet 0 (n - 1) run) < n"
  using util_rndGet_le0 [of "n - 1" run] by linarith

lemmas op_defs =
  mangle_MemMove_def mangle_Bytes_def mangle_Bit_def mangle_DictionaryInsertNoCheck_def
  mangle_DictionaryInsert_def mangle_DictionaryNoCheck_def mangle_Dictionary_def
  mangle_Magic_def mangle_MemSetWithVal_def mangle_MemSet_def mangle_Random_def
  mangle_AddSubWithRange_def mangle_AddSub_def mangle_IncByte_def mangle_DecByte_def
  mangle_NegByte_def mangle_CloneByte_def mangle_Expand_def mangle_Shrink_def
  mangle_ASCIIVal_def

lemmas prim_eqs = mangle_Overwrite_eq mangle_Move_eq mangle_Inflate_eq
  util_turnToPrintable_def input_setSize_def

lemma same_globals_ops:
  "same_globals run (mangle_Bit run p)"
  "same_globals run (mangle_Bytes run p)"
  "same_globals run (mangle_Magic run p)"
  "same_globals run (mangle_IncByte run p)"
  "same_globals run (mangle_DecByte run p)"
  "same_globals run (mangle_NegByte run p)"
  "same_globals run (mangle_AddSub run p)"
  "same_globals run (mangle_Dictionary run p)"
  "same_globals run (mangle_DictionaryInsert run p)"
  "same_globals run (mangle_MemMove run p)"
  "same_globals run (mangle_MemSet run p)"
  "same_globals run (mangle_Random run p)"
  "same_globals run (mangle_CloneByte run p)"
  "same_globals run (mangle_Expand run p)"
  "same_globals run (mangle_Shrink run p)"
  "same_globals run (mangle_ASCIIVal run p)"
  by (simp_all add: same_globals_def op_defs prim_eqs split_def Let_def)

lemma same_globals_Resize: "same_globals run (mangle_Resize run p)"
  by (simp add: same_globals_def mangle_Resize_def prim_eqs split_def Let_def)

lemma size_same_ops:
  "dynamicFileSz (mangle_Bit run p) = dynamicFileSz run"
  "dynamicFileSz (mangle_Bytes run p) = dynamicFileSz run"
  "dynamicFileSz (mangle_Magic run p) = dynamicFileSz run"
  "dynamicFileSz (mangle_IncByte run p) = dynamicFileSz run"
  "dynamicFileSz (mangle_DecByte run p) = dynamicFileSz run"
  "dynamicFileSz (mangle_NegByte run p) = dynamicFileSz run"
  "dynamicFileSz (mangle_AddSub run p) = dynamicFileSz run"
  "dynamicFileSz (mangle_Dictionary run p) = dynamicFileSz run"
  "dynamicFileSz (mangle_MemMove run p) = dynamicFileSz run"
  "dynamicFileSz (mangle_MemSet run p) = dynamicFileSz run"
  "dynamicFileSz (mangle_Random run p) = dynamicFileSz run"
  "dynamicFileSz (mangle_CloneByte run p) = dynamicFileSz run"
  "dynamicFileSz (mangle_ASCIIVal run p) = dynamicFileSz run"
  by (simp_all add: op_defs prim_eqs split_def Let_def)

lemma size_ok_Inflate: "size_ok run \<Longrightarrow> size_ok (mangle_Inflate run off len p)"
  by (auto simp: size_ok_def mangle_Inflate_eq Let_def)

lemma size_ok_Expand: "size_ok run \<Longrightarrow> size_ok (mangle_Expand run p)"
  unfolding mangle_Expand_def split_def Let_def
  by (rule size_ok_Inflate) (simp add: size_ok_def)

lemma size_ok_DictionaryInsert: "size_ok run \<Longrightarrow> size_ok (mangle_DictionaryInsert run p)"
  using same_globals_ops(1) [of run p]
  by (auto simp: same_globals_def mangle_DictionaryInsert_def mangle_DictionaryInsertNoCheck_def split_def Let_def
      mangle_Overwrite_eq size_same_ops size_ok_def mangle_Inflate_eq)

lemma size_ok_Shrink: "size_ok run \<Longrightarrow> size_ok (mangle_Shrink run p)"
proof (cases "dynamicFileSz run \<le> 1")
  case True
  assume "size_ok run"
  with True show ?thesis by (simp add: mangle_Shrink_def)
next
  case False
  assume ok: "size_ok run"
  let ?len = "fst (util_rndGet 1 (dynamicFileSz run - 1) run)"
  from False have "1 \<le> ?len" "?len \<le> dynamicFileSz run - 1"
    using util_rndGet_ge [of 1 "dynamicFileSz run - 1" run]
      util_rndGet_le [of 1 "dynamicFileSz run - 1" run] by simp_all
  with False ok have "1 \<le> dynamicFileSz run - ?len" "dynamicFileSz run - ?len \<le> maxFileSz run"
    unfolding size_ok_def by linarith+
  with False show ?thesis
    by (simp add: mangle_Shrink_def split_def Let_def prim_eqs size_ok_def)
qed

lemma size_ok_Resize: "size_ok run \<Longrightarrow> size_ok (mangle_Resize run p)"
  by (auto simp: mangle_Resize_def split_def Let_def prim_eqs size_ok_def)

lemma store_printable_upto:
  "store_printable run \<longleftrightarrow> printable_upto (maxFileSz run) (dynamicFile run)"
  by (simp add: store_printable_iff printable_upto_def)

lemma pr_upd: "printable_upto N m \<Longrightarrow> is_printable v \<Longrightarrow> printable_upto N (m(off := v))"
  by (simp add: printable_upto_def)

lemma pr_store:
  "printable_upto N m \<Longrightarrow> n \<le> length src \<Longrightarrow> list_all is_printable src \<Longrightarrow>
   printable_upto N (store m off src n)"
  by (auto simp: printable_upto_def store_def list_all_length)

lemma pr_memmove:
  "printable_upto N m \<Longrightarrow> src + n \<le> N \<Longrightarrow> printable_upto N (memmove m dst src n)"
  by (auto simp: printable_upto_def memmove_def)

lemma pr_memset:
  "printable_upto N m \<Longrightarrow> is_printable v \<Longrightarrow> printable_upto N (memset m off v n)"
  by (auto simp: printable_upto_def memset_def)

lemma pr_turn_after:
  "printable_upto N m \<Longrightarrow> (\<And>i. i < off \<or> off + len \<le> i \<Longrightarrow> m' i = m i) \<Longrightarrow>
   printable_upto N (\<lambda>i. if off \<le> i \<and> i < off + len then turn_byte (m' i) else m' i)"
  by (auto simp: printable_upto_def is_printable_turn_byte)

lemma store_outside: "i < off \<or> off + n \<le> i \<Longrightarrow> store m off src n i = m i"
  by (auto simp: store_def)

lemma dec_digits_printable: "list_all is_printable (dec_digits n)"
proof (induction n rule: dec_digits.induct)
  case (1 n)
  show ?case
  proof (cases "n < 10")
    case True
    then have "is_printable (of_nat (48 + n))"
      by (intro is_printable_of_nat) linarith+
    with True show ?thesis
      by (subst dec_digits.simps) (simp del: of_nat_add)
  next
    case False
    have "n mod 10 < 10" by simp
    then have "is_printable (of_nat (48 + n mod 10))"
      by (intro is_printable_of_nat) linarith+
    with False "1.IH" show ?thesis
      by (subst dec_digits.simps) (simp del: of_nat_add)
  qed
qed

lemma snprintf_PRId64_printable: "list_all is_printable (snprintf_PRId64 x)"
  by (simp add: snprintf_PRId64_def dec_digits_printable is_printable_def)

lemma prim_fields [simp]:
  "maxFileSz (mangle_Overwrite run src off sz) = maxFileSz run"
  "dynamicFileSz (mangle_Overwrite run src off sz) = dynamicFileSz run"
  "maxFileSz (mangle_Move run off_from off_to len) = maxFileSz run"
  "dynamicFileSz (mangle_Move run off_from off_to len) = dynamicFileSz run"
  "maxFileSz (util_turnToPrintable off len run) = maxFileSz run"
  "dynamicFileSz (util_turnToPrintable off len run) = dynamicFileSz run"
  "maxFileSz (mangle_Inflate run off len p) = maxFileSz run"
  "maxFileSz (input_setSize run n) = maxFileSz run"
  "dynamicFileSz (input_setSize run n) = n"
  "dynamicFile (input_setSize run n) = dynamicFile run"
  by (simp_all add: prim_eqs Let_def)

lemma pr_turnToPrintable:
  "printable_upto N (dynamicFile run0) \<Longrightarrow>
   (\<And>i. i < off \<or> off + len \<le> i \<Longrightarrow> dynamicFile run i = dynamicFile run0 i) \<Longrightarrow>
   printable_upto N (dynamicFile (util_turnToPrintable off len run))"
  by (auto simp: printable_upto_def is_printable_turn_byte util_turnToPrintable_def)

lemma pr_Overwrite:
  "printable_upto N (dynamicFile run) \<Longrightarrow> sz \<le> length src \<Longrightarrow> list_all is_printable src \<Longrightarrow>
   printable_upto N (dynamicFile (mangle_Overwrite run src off sz))"
  by (simp add: mangle_Overwrite_eq pr_store)

lemma Overwrite_outside:
  "i < off \<or> off + sz \<le> i \<Longrightarrow> dynamicFile (mangle_Overwrite run src off sz) i = dynamicFile run i"
  by (auto simp: mangle_Overwrite_eq store_def)

lemma pr_Move:
  "printable_upto N (dynamicFile run) \<Longrightarrow> dynamicFileSz run \<le> N \<Longrightarrow>
   printable_upto N (dynamicFile (mangle_Move run off_from off_to len))"
proof (cases "off_from < dynamicFileSz run \<and> off_to < dynamicFileSz run")
  case True
  assume "printable_upto N (dynamicFile run)" "dynamicFileSz run \<le> N"
  moreover from True have "off_from + move_len run off_from off_to len \<le> dynamicFileSz run - 1"
    using move_len_from [of off_from run off_to len] by simp
  ultimately have "off_from + move_len run off_from off_to len \<le> N"
    by linarith
  with \<open>printable_upto N (dynamicFile run)\<close> show ?thesis
    by (simp add: mangle_Move_eq pr_memmove)
next
  case False
  assume "printable_upto N (dynamicFile run)"
  with False show ?thesis
    by (simp add: mangle_Move_eq move_len_0)
qed

lemma pr_Inflate:
  assumes "printable_upto (maxFileSz run) (dynamicFile run)" "dynamicFileSz run \<le> maxFileSz run"
  shows "printable_upto (maxFileSz run) (dynamicFile (mangle_Inflate run off len True))"
proof (cases "dynamicFileSz run \<ge> maxFileSz run")
  case True
  with assms show ?thesis by (simp add: mangle_Inflate_def)
next
  case False
  define len1 where "len1 = (if len > maxFileSz run - dynamicFileSz run
                    then maxFileSz run - dynamicFileSz run else len)"
  define run1 where "run1 = input_setSize run (dynamicFileSz run + len1)"
  define run2 where "run2 = mangle_Move run1 off (off + len1) (dynamicFileSz run1)"
  have "dynamicFileSz run1 \<le> maxFileSz run"
    using False by (auto simp: run1_def len1_def)
  with assms have "printable_upto (maxFileSz run) (dynamicFile run2)"
    unfolding run2_def by (intro pr_Move) (simp_all add: run1_def)
  then have "printable_upto (maxFileSz run)
     (store (dynamicFile run2) off (fst (util_rndBufPrintable len1 run2)) len1)"
    by (intro pr_store) (simp_all add: util_rndBufPrintable_printable)
  with False show ?thesis
    by (simp add: mangle_Inflate_def Let_def split_def len1_def run1_def run2_def)
qed

lemma pr_Bit: "store_printable run \<Longrightarrow> store_printable (mangle_Bit run True)"
  unfolding store_printable_upto
  by (simp add: mangle_Bit_def split_def Let_def) (rule pr_turnToPrintable, auto)

lemma pr_Bytes: "store_printable run \<Longrightarrow> store_printable (mangle_Bytes run True)"
proof -
  assume "store_printable run"
  moreover have "fst (util_rndGet 1 8 r) \<le> 8" for r
    by (rule util_rndGet_le) simp
  ultimately show ?thesis
    unfolding store_printable_upto
    by (simp add: mangle_Bytes_def split_def Let_def)
       (rule pr_Overwrite, simp_all add: util_rndBufPrintable_printable)
qed

lemma pr_Magic: "store_printable run \<Longrightarrow> store_printable (mangle_Magic run True)"
  unfolding store_printable_upto
  by (simp add: mangle_Magic_def split_def Let_def)
     (rule pr_turnToPrintable, auto simp: Overwrite_outside)

lemma printable_at_off:
  assumes "size_ok run" "store_printable run"
  shows "is_printable (dynamicFile run (fst (util_rndGet 0 (dynamicFileSz run - 1) r)))"
proof -
  from assms(1) have "fst (util_rndGet 0 (dynamicFileSz run - 1) r) < dynamicFileSz run"
    by (intro util_rndGet_off) (simp add: size_ok_def)
  with assms show ?thesis
    by (simp add: size_ok_def store_printable_iff)
qed

lemma c_rem_nonneg: "0 \<le> a \<Longrightarrow> c_rem a 95 = a mod 95"
  by (cases "a = 0") (simp_all add: c_rem_def)

lemma pr_IncByte:
  assumes "size_ok run" "store_printable run"
  shows "store_printable (mangle_IncByte run True)"
proof -
  let ?b = "dynamicFile run (fst (util_rndGet 0 (dynamicFileSz run - 1) run))"
  from assms have "is_printable ?b" by (rule printable_at_off)
  then have "0 \<le> uint ?b - 32 + 1" by (simp add: is_printable_uint)
  then have "c_rem (uint ?b - 32 + 1) 95 = (uint ?b - 32 + 1) mod 95"
    by (rule c_rem_nonneg)
  moreover have "0 \<le> (uint ?b - 32 + 1) mod 95" "(uint ?b - 32 + 1) mod 95 < 95"
    by simp_all
  ultimately have "is_printable (of_int (c_rem (uint ?b - 32 + 1) 95 + 32))"
    by (intro is_printable_of_int) linarith+
  with assms(2) show ?thesis
    unfolding store_printable_upto
    by (simp add: mangle_IncByte_def split_def Let_def pr_upd)
qed

lemma pr_DecByte:
  assumes "size_ok run" "store_printable run"
  shows "store_printable (mangle_DecByte run True)"
proof -
  let ?b = "dynamicFile run (fst (util_rndGet 0 (dynamicFileSz run - 1) run))"
  from assms have "is_printable ?b" by (rule printable_at_off)
  then have "0 \<le> uint ?b - 32 + 94" by (simp add: is_printable_uint)
  then have "c_rem (uint ?b - 32 + 94) 95 = (uint ?b - 32 + 94) mod 95"
    by (rule c_rem_nonneg)
  moreover have "0 \<le> (uint ?b - 32 + 94) mod 95" "(uint ?b - 32 + 94) mod 95 < 95"
    by simp_all
  ultimately have "is_printable (of_int (c_rem (uint ?b - 32 + 94) 95 + 32))"
    by (intro is_printable_of_int) linarith+
  with assms(2) show ?thesis
    unfolding store_printable_upto
    by (simp add: mangle_DecByte_def split_def Let_def pr_upd)
qed

lemma pr_NegByte:
  assumes "size_ok run" "store_printable run"
  shows "store_printable (mangle_NegByte run True)"
proof -
  let ?b = "dynamicFile run (fst (util_rndGet 0 (dynamicFileSz run - 1) run))"
  from assms have "is_printable ?b" by (rule printable_at_off)
  then have "is_printable (of_int (94 - (uint ?b - 32) + 32))"
    by (intro is_printable_of_int) (simp_all add: is_printable_uint)
  with assms(2) show ?thesis
    unfolding store_printable_upto
    by (simp add: mangle_NegByte_def split_def Let_def pr_upd)
qed

lemma AddSubWithRange_fields [simp]:
  "maxFileSz (mangle_AddSubWithRange run off varLen) = maxFileSz run"
  "dynamicFileSz (mangle_AddSubWithRange run off varLen) = dynamicFileSz run"
  by (simp_all add: mangle_AddSubWithRange_def split_def Let_def)

lemma AddSubWithRange_outside:
  "i < off \<or> off + varLen \<le> i \<Longrightarrow>
   dynamicFile (mangle_AddSubWithRange run off varLen) i = dynamicFile run i"
  by (auto simp: mangle_AddSubWithRange_def split_def Let_def Overwrite_outside)

lemma pr_AddSub: "store_printable run \<Longrightarrow> store_printable (mangle_AddSub run True)"
  unfolding store_printable_upto
  by (auto simp: mangle_AddSub_def split_def Let_def AddSubWithRange_outside
      intro!: pr_turnToPrintable)

lemma dict_choice:
  "dictionaryCnt run \<noteq> 0 \<Longrightarrow> fst (util_rndGet 0 (dictionaryCnt run - 1) r) < dictionaryCnt run"
  by (rule util_rndGet_off) simp

lemma dict_entry_printable:
  "dict_printable run \<Longrightarrow> c < dictionaryCnt run \<Longrightarrow> list_all is_printable (dictq run ! c)"
  by (simp add: dict_printable_def list_all_length)

lemma pr_Dictionary:
  assumes "store_printable run" "dict_printable run"
  shows "store_printable (mangle_Dictionary run True)"
proof (cases "dictionaryCnt run = 0")
  case True
  with assms(1) show ?thesis by (simp add: mangle_Dictionary_def pr_Bit)
next
  case False
  then have "fst (util_rndGet 0 (dictionaryCnt run - 1) r) < dictionaryCnt run" for r
    by (intro util_rndGet_off) simp
  with assms(2) have "list_all is_printable (dictq run ! fst (util_rndGet 0 (dictionaryCnt run - 1) r))" for r
    by (rule dict_entry_printable)
  with False assms(1) show ?thesis
    unfolding store_printable_upto
    by (simp add: mangle_Dictionary_def mangle_DictionaryNoCheck_def split_def Let_def
        pr_Overwrite)
qed

lemma pr_DictionaryInsert:
  assumes "size_ok run" "store_printable run" "dict_printable run"
  shows "store_printable (mangle_DictionaryInsert run True)"
proof (cases "dictionaryCnt run = 0")
  case True
  with assms(2) show ?thesis by (simp add: mangle_DictionaryInsert_def pr_Bit)
next
  case False
  let ?r2 = "snd (util_rndGet 0 (dynamicFileSz run - 1) (snd (util_rndGet 0 (dictionaryCnt run - 1) run)))"
  from assms have "printable_upto (maxFileSz ?r2) (dynamicFile ?r2)" "dynamicFileSz ?r2 \<le> maxFileSz ?r2"
    by (simp_all add: store_printable_upto size_ok_def)
  then have "printable_upto (maxFileSz ?r2) (dynamicFile (mangle_Inflate ?r2 off len True))" for off len
    by (rule pr_Inflate)
  moreover from False have "fst (util_rndGet 0 (dictionaryCnt run - 1) r) < dictionaryCnt run" for r
    by (intro util_rndGet_off) simp
  with assms(3) have "list_all is_printable (dictq run ! fst (util_rndGet 0 (dictionaryCnt run - 1) r))" for r
    by (rule dict_entry_printable)
  ultimately show ?thesis
    using False unfolding store_printable_upto
    by (simp add: mangle_DictionaryInsert_def mangle_DictionaryInsertNoCheck_def split_def Let_def
        pr_Overwrite)
qed

lemma pr_MemMove:
  "size_ok run \<Longrightarrow> store_printable run \<Longrightarrow> store_printable (mangle_MemMove run True)"
  unfolding store_printable_upto
  by (simp add: mangle_MemMove_def split_def Let_def pr_Move size_ok_def)

lemma pr_MemSet: "store_printable run \<Longrightarrow> store_printable (mangle_MemSet run True)"
  unfolding store_printable_upto
  by (simp add: mangle_MemSet_def mangle_MemSetWithVal_def split_def Let_def pr_memset
      util_rndPrintable_printable)

lemma pr_Random: "store_printable run \<Longrightarrow> store_printable (mangle_Random run True)"
  unfolding store_printable_upto
  by (simp add: mangle_Random_def split_def Let_def pr_store util_rndBufPrintable_printable)

lemma pr_CloneByte:
  assumes "size_ok run" "store_printable run"
  shows "store_printable (mangle_CloneByte run True)"
proof -
  have "is_printable (dynamicFile run (fst (util_rndGet 0 (dynamicFileSz run - 1) r)))" for r
    using assms by (rule printable_at_off)
  with assms(2) show ?thesis
    unfolding store_printable_upto
    by (simp add: mangle_CloneByte_def split_def Let_def pr_upd)
qed

lemma pr_Expand:
  assumes "size_ok run" "store_printable run"
  shows "store_printable (mangle_Expand run True)"
proof -
  let ?r2 = "snd (util_rndGet 1 (dynamicFileSz run - fst (util_rndGet 0 (dynamicFileSz run - 1) run))
     (snd (util_rndGet 0 (dynamicFileSz run - 1) run)))"
  from assms have "printable_upto (maxFileSz ?r2) (dynamicFile ?r2)" "dynamicFileSz ?r2 \<le> maxFileSz ?r2"
    by (simp_all add: store_printable_upto size_ok_def)
  then have "printable_upto (maxFileSz ?r2) (dynamicFile (mangle_Inflate ?r2 off len True))" for off len
    by (rule pr_Inflate)
  then show ?thesis
    unfolding store_printable_upto
    by (simp add: mangle_Expand_def split_def Let_def)
qed

lemma pr_Shrink:
  assumes "size_ok run" "store_printable run"
  shows "store_printable (mangle_Shrink run True)"
proof (cases "dynamicFileSz run \<le> 1")
  case True
  with assms show ?thesis by (simp add: mangle_Shrink_def)
next
  case False
  with assms show ?thesis
    unfolding store_printable_upto
    by (simp add: mangle_Shrink_def split_def Let_def size_ok_def pr_Move)
qed

lemma pr_ASCIIVal: "store_printable run \<Longrightarrow> store_printable (mangle_ASCIIVal run True)"
  unfolding store_printable_upto
  by (simp add: mangle_ASCIIVal_def split_def Let_def pr_Overwrite snprintf_PRId64_printable)

lemma pr_Resize: "store_printable run \<Longrightarrow> store_printable (mangle_Resize run True)"
  unfolding store_printable_upto
  by (auto simp: mangle_Resize_def split_def Let_def pr_store util_rndBufPrintable_printable)

section \<open>The session loop keeps the size within bounds\<close>

lemma mangleFuncs_cases:
  assumes "f \<in> set mangleFuncs"
  obtains "f = mangle_Bit" | "f = mangle_Bytes" | "f = mangle_Magic" | "f = mangle_IncByte"
    | "f = mangle_DecByte" | "f = mangle_NegByte" | "f = mangle_AddSub" | "f = mangle_Dictionary"
    | "f = mangle_DictionaryInsert" | "f = mangle_MemMove" | "f = mangle_MemSet"
    | "f = mangle_Random" | "f = mangle_CloneByte" | "f = mangle_Expand" | "f = mangle_Shrink"
    | "f = mangle_ASCIIVal"
  using assms unfolding mangleFuncs_def
  by (simp only: list.set insert_iff empty_iff) blast

lemma same_globals_mangleFuncs: "f \<in> set mangleFuncs \<Longrightarrow> same_globals run (f run p)"
  by (erule mangleFuncs_cases) (simp_all only: same_globals_ops)

lemma size_ok_same:
  "size_ok run \<Longrightarrow> same_globals run run' \<Longrightarrow> dynamicFileSz run' = dynamicFileSz run \<Longrightarrow>
   size_ok run'"
  by (simp add: size_ok_def same_globals_def)

lemma size_ok_mangleFuncs:
  assumes "size_ok run" "f \<in> set mangleFuncs"
  shows "size_ok (f run p)"
proof -
  have same: "size_ok (g run p)" if "g \<in> set mangleFuncs" "dynamicFileSz (g run p) = dynamicFileSz run" for g
    using assms(1) same_globals_mangleFuncs [OF that(1)] that(2) by (rule size_ok_same)
  from assms(2) show ?thesis
  proof (cases rule: mangleFuncs_cases)
    case 9
    with assms(1) show ?thesis by (simp only: size_ok_DictionaryInsert)
  next
    case 14
    with assms(1) show ?thesis by (simp only: size_ok_Expand)
  next
    case 15
    with assms(1) show ?thesis by (simp only: size_ok_Shrink)
  qed (use assms(2) in \<open>simp_all only: same size_same_ops\<close>)
qed

lemma choice_in_mangleFuncs:
  "mangleFuncs ! fst (util_rndGet 0 (length mangleFuncs - 1) run) \<in> set mangleFuncs"
  by (intro nth_mem util_rndGet_off) (simp add: mangleFuncs_def)

lemma size_ok_rndPos [simp]: "size_ok (run\<lparr>rndPos := n\<rparr>) = size_ok run"
  by (simp add: size_ok_def)

lemma same_globals_refl [simp]: "same_globals run run"
  by (simp add: same_globals_def)

lemma same_globals_rndPos [simp]:
  "same_globals run (run'\<lparr>rndPos := n\<rparr>) = same_globals run run'"
  "same_globals (run\<lparr>rndPos := n\<rparr>) run' = same_globals run run'"
  by (simp_all add: same_globals_def)

lemma same_globals_trans:
  "same_globals r1 r2 \<Longrightarrow> same_globals r2 r3 \<Longrightarrow> same_globals r1 r3"
  by (simp add: same_globals_def)

lemma mangle_loop_size_ok:
  "size_ok run \<Longrightarrow> size_ok (mangle_loop n run) \<and> same_globals run (mangle_loop n run)"
proof (induction n arbitrary: run)
  case 0
  then show ?case by simp
next
  case (Suc n)
  let ?run1 = "run\<lparr>rndPos := rndPos run + 1\<rparr>"
  let ?f = "mangleFuncs ! fst (util_rndGet 0 (length mangleFuncs - 1) run)"
  let ?run2 = "?f ?run1 (only_printable ?run1)"
  have f: "?f \<in> set mangleFuncs" by (rule choice_in_mangleFuncs)
  from Suc.prems have "size_ok ?run1" by simp
  from this f have "size_ok ?run2"
    by (rule size_ok_mangleFuncs)
  then have "size_ok (mangle_loop n ?run2)" "same_globals ?run2 (mangle_loop n ?run2)"
    using Suc.IH by blast+
  moreover from f have "same_globals ?run1 ?run2"
    by (rule same_globals_mangleFuncs)
  ultimately show ?case
    using same_globals_trans [of run ?run2 "mangle_loop n ?run2"]
    by (simp add: split_def)
qed

lemma mangle_mangleContent_size_ok:
  assumes "size_ok run"
  shows "size_ok (mangle_mangleContent run) \<and> same_globals run (mangle_mangleContent run)"
proof (cases "mutationsPerRun run = 0")
  case True
  with assms show ?thesis by (simp add: mangle_mangleContent_def)
next
  case False
  define run1 where "run1 = mangle_Resize run (only_printable run)"
  define k where "k = fst (util_rndGet 1 (global_mutationsPerRun run1) run1)"
  define run2 where "run2 = run1\<lparr>rndPos := rndPos run1 + 1\<rparr>"
  from False have eq: "mangle_mangleContent run = mangle_loop k run2"
    by (simp add: mangle_mangleContent_def split_def Let_def run1_def k_def run2_def)
  from assms have "size_ok run2"
    by (simp add: run2_def run1_def size_ok_Resize)
  then have loop: "size_ok (mangle_loop k run2)" "same_globals run2 (mangle_loop k run2)"
    using mangle_loop_size_ok by blast+
  have "same_globals run run2"
    by (simp add: run2_def run1_def same_globals_Resize)
  from this loop(2) have "same_globals run (mangle_loop k run2)"
    by (rule same_globals_trans)
  with loop(1) eq show ?thesis by simp
qed

section \<open>The session loop keeps a printable store printable\<close>

lemma store_printable_rndPos [simp]: "store_printable (run\<lparr>rndPos := n\<rparr>) = store_printable run"
  by (simp add: store_printable_def)

lemma dict_printable_same: "same_globals run run' \<Longrightarrow> dict_printable run \<Longrightarrow> dict_printable run'"
  by (simp add: same_globals_def dict_printable_def)

lemma dict_printable_rndPos [simp]: "dict_printable (run\<lparr>rndPos := n\<rparr>) = dict_printable run"
  by (simp add: dict_printable_def)

lemma store_printable_mangleFuncs:
  assumes "size_ok run" "store_printable run" "dict_printable run" "f \<in> set mangleFuncs"
  shows "store_printable (f run True)"
  using assms(4)
proof (cases rule: mangleFuncs_cases)
  case 1 with assms show ?thesis by (simp only: pr_Bit)
next
  case 2 with assms show ?thesis by (simp only: pr_Bytes)
next
  case 3 with assms show ?thesis by (simp only: pr_Magic)
next
  case 4 with assms show ?thesis by (simp only: pr_IncByte)
next
  case 5 with assms show ?thesis by (simp only: pr_DecByte)
next
  case 6 with assms show ?thesis by (simp only: pr_NegByte)
next
  case 7 with assms show ?thesis by (simp only: pr_AddSub)
next
  case 8 with assms show ?thesis by (simp only: pr_Dictionary)
next
  case 9 with assms show ?thesis by (simp only: pr_DictionaryInsert)
next
  case 10 with assms show ?thesis by (simp only: pr_MemMove)
next
  case 11 with assms show ?thesis by (simp only: pr_MemSet)
next
  case 12 with assms show ?thesis by (simp only: pr_Random)
next
  case 13 with assms show ?thesis by (simp only: pr_CloneByte)
next
  case 14 with assms show ?thesis by (simp only: pr_Expand)
next
  case 15 with assms show ?thesis by (simp only: pr_Shrink)
next
  case 16 with assms show ?thesis by (simp only: pr_ASCIIVal)
qed

lemma mangle_loop_printable:
  "only_printable run \<Longrightarrow> size_ok run \<Longrightarrow> store_printable run \<Longrightarrow> dict_printable run \<Longrightarrow>
   store_printable (mangle_loop n run)"
proof (induction n arbitrary: run)
  case 0
  then show ?case by simp
next
  case (Suc n)
  let ?run1 = "run\<lparr>rndPos := rndPos run + 1\<rparr>"
  let ?f = "mangleFuncs ! fst (util_rndGet 0 (length mangleFuncs - 1) run)"
  let ?run2 = "?f ?run1 True"
  have f: "?f \<in> set mangleFuncs" by (rule choice_in_mangleFuncs)
  from Suc.prems have pre: "size_ok ?run1" "store_printable ?run1" "dict_printable ?run1"
    by simp_all
  from pre(1) f have "size_ok ?run2" by (rule size_ok_mangleFuncs)
  moreover from pre f have "store_printable ?run2" by (rule store_printable_mangleFuncs)
  moreover from f have same: "same_globals ?run1 ?run2" by (rule same_globals_mangleFuncs)
  from same pre(3) have "dict_printable ?run2" by (rule dict_printable_same)
  moreover from same Suc.prems(1) have "only_printable ?run2" by (simp add: same_globals_def)
  ultimately have "store_printable (mangle_loop n ?run2)"
    using Suc.IH by blast
  with Suc.prems(1) show ?case
    by (simp add: split_def)
qed

lemma mangle_mangleContent_printable:
  assumes "only_printable run" "size_ok run" "store_printable run" "dict_printable run"
  shows "store_printable (mangle_mangleContent run)"
proof (cases "mutationsPerRun run = 0")
  case True
  with assms show ?thesis by (simp add: mangle_mangleContent_def)
next
  case False
  define run1 where "run1 = mangle_Resize run True"
  define k where "k = fst (util_rndGet 1 (global_mutationsPerRun run1) run1)"
  define run2 where "run2 = run1\<lparr>rndPos := rndPos run1 + 1\<rparr>"
  from False assms(1) have eq: "mangle_mangleContent run = mangle_loop k run2"
    by (simp add: mangle_mangleContent_def split_def Let_def run1_def k_def run2_def)
  have same: "same_globals run run2"
    by (simp add: run2_def run1_def same_globals_Resize)
  from assms(2) have "size_ok run2"
    by (simp add: run2_def run1_def size_ok_Resize)
  moreover from assms(3) have "store_printable run2"
    by (simp add: run2_def run1_def pr_Resize)
  moreover from same assms(4) have "dict_printable run2" by (rule dict_printable_same)
  moreover from same assms(1) have "only_printable run2" by (simp add: same_globals_def)
  ultimately have "store_printable (mangle_loop k run2)"
    using mangle_loop_printable [of run2 k] by blast
  with eq show ?thesis by simp
qed

lemma buffer_printable_of_store:
  "store_printable run \<Longrightarrow> size_ok run \<Longrightarrow> buffer_printable run"
  by (simp add: store_printable_iff buffer_printable_iff size_ok_def)

section \<open>The fill bytes\<close>

lemma rnd_bytes_Suc:
  "rnd_bytes tape pos (Suc n) = ucast (tape pos) # rnd_bytes tape (Suc pos) n"
  by (simp add: rnd_bytes_def upt_conv_Cons map_Suc_upt [symmetric] del: upt_Suc)

lemma rnd_printable_bytes_Suc:
  "rnd_printable_bytes tape pos (Suc n) =
     of_nat (32 + unat (tape pos) mod 95) # rnd_printable_bytes tape (Suc pos) n"
  by (simp add: rnd_printable_bytes_def upt_conv_Cons map_Suc_upt [symmetric] del: upt_Suc of_nat_add)

lemma fst_util_rndBuf: "fst (util_rndBuf n run) = rnd_bytes (rndTape run) (rndPos run) n"
  by (induction n arbitrary: run) (simp_all add: split_def rnd_bytes_Suc, simp add: rnd_bytes_def)

lemma fst_util_rndBufPrintable:
  "fst (util_rndBufPrintable n run) = rnd_printable_bytes (rndTape run) (rndPos run) n"
proof (induction n arbitrary: run)
  case 0
  show ?case by (simp add: rnd_printable_bytes_def)
next
  case (Suc n)
  have "fst (util_rndPrintable run) = of_nat (32 + unat (rndTape run (rndPos run)) mod 95)"
    by (simp add: util_rndPrintable_def util_rndGet_def split_def del: of_nat_add)
  with Suc show ?case
    by (simp add: split_def rnd_printable_bytes_Suc del: of_nat_add)
qed

section \<open>Little-endian values in the buffer\<close>




lemma length_bytes_le [simp]: "length (bytes_le n w) = n"
  by (induction n arbitrary: w) simp_all












section \<open>The printable invariant\<close>

text \<open>
  Claim C1: with \<^verbatim>\<open>only_printable\<close> set and a buffer all of whose bytes lie in
  \<open>[0x20, 0x7E]\<close>, after any single operator (Dictionary and DictionaryInsert included, for
  any dictionary contents), and hence after \<^verbatim>\<open>mangle_mangleContent\<close>, every byte at the
  offsets \<open>[0, size)\<close> lies in \<open>[0x20, 0x7E]\<close>.

  The code breaks this. Every other operator that writes bytes from outside the buffer
  honours the flag (\<^verbatim>\<open>mangle_Magic\<close> and \<^verbatim>\<open>mangle_AddSub\<close> call
  \<^verbatim>\<open>util_turnToPrintable\<close> after \<^verbatim>\<open>mangle_Overwrite\<close>), but
  \<^verbatim>\<open>mangle_Dictionary\<close> passes the flag to the \<^verbatim>\<open>mangle_Bit\<close> fallback only and
  \<^verbatim>\<open>mangle_DictionaryInsertNoCheck\<close> to \<^verbatim>\<open>mangle_Inflate\<close> only: both write the
  dictionary entry as it is. The theorem runs the code in printable mode: with the
  dictionary entry \<open>0D 0A\<close> (a line end), Dictionary on the printable buffer \<open>AB\<close> leaves
  \<open>0D 0A\<close>, and DictionaryInsert leaves bytes outside the range as well.

  A second defect shows with an empty dictionary: \<^verbatim>\<open>mangle_Inflate\<close> grows the buffer
  through \<^verbatim>\<open>input_setSize\<close>, whose fill is undefined, and its \<^verbatim>\<open>mangle_Move\<close> never
  writes the last byte of the grown buffer. Expand on the printable buffer \<open>AB\<close>, in a store
  whose bytes beyond the size are zero, leaves \<open>20 41 00\<close>: the last byte is the stale zero
  of the store.
\<close>

theorem printable_mode_leaks:
  "only_printable ((ctx [0x41, 0x42, 0x20, 0x20] 2 4 [[0x0D, 0x0A]] [0, 0])\<lparr>only_printable := True\<rparr>)
   \<and> size_ok ((ctx [0x41, 0x42, 0x20, 0x20] 2 4 [[0x0D, 0x0A]] [0, 0])\<lparr>only_printable := True\<rparr>)
   \<and> buffer_printable ((ctx [0x41, 0x42, 0x20, 0x20] 2 4 [[0x0D, 0x0A]] [0, 0])\<lparr>only_printable := True\<rparr>)
   \<and> contents (mangle_Dictionary
         ((ctx [0x41, 0x42, 0x20, 0x20] 2 4 [[0x0D, 0x0A]] [0, 0])\<lparr>only_printable := True\<rparr>) True)
       = [0x0D, 0x0A]
   \<and> \<not> buffer_printable (mangle_Dictionary
         ((ctx [0x41, 0x42, 0x20, 0x20] 2 4 [[0x0D, 0x0A]] [0, 0])\<lparr>only_printable := True\<rparr>) True)
   \<and> \<not> buffer_printable (mangle_DictionaryInsert
         ((ctx [0x41, 0x42, 0x20, 0x20] 2 4 [[0x0D, 0x0A]] [0, 0])\<lparr>only_printable := True\<rparr>) True)
   \<and> only_printable ((ctx [0x41, 0x42] 2 4 [] [0, 0, 0])\<lparr>only_printable := True\<rparr>)
   \<and> size_ok ((ctx [0x41, 0x42] 2 4 [] [0, 0, 0])\<lparr>only_printable := True\<rparr>)
   \<and> buffer_printable ((ctx [0x41, 0x42] 2 4 [] [0, 0, 0])\<lparr>only_printable := True\<rparr>)
   \<and> contents (mangle_Expand ((ctx [0x41, 0x42] 2 4 [] [0, 0, 0])\<lparr>only_printable := True\<rparr>) True)
       = [0x20, 0x41, 0x00]
   \<and> \<not> buffer_printable
         (mangle_Expand ((ctx [0x41, 0x42] 2 4 [] [0, 0, 0])\<lparr>only_printable := True\<rparr>) True)"
  by code_simp

text \<open>
  What the code does keep. With the size within bounds, every byte of the store
  \<open>[0, maxFileSz)\<close> in \<open>[0x20, 0x7E]\<close> (not only those below the size) and a dictionary whose
  entries consist of such bytes only, every operator of \<^verbatim>\<open>mangleFuncs\<close> called with the
  printable flag, the Resize step, and, when \<^verbatim>\<open>only_printable\<close> is set, the whole session
  leave every byte at the offsets \<open>[0, size)\<close> in \<open>[0x20, 0x7E]\<close>: the two defects are the
  only ways out of the printable range.
\<close>

lemma printable_invariant:
  assumes "size_ok run" "store_printable run" "dict_printable run"
  shows "(\<forall>f \<in> set mangleFuncs. buffer_printable (f run True))
     \<and> buffer_printable (mangle_Resize run True)
     \<and> (only_printable run \<longrightarrow> buffer_printable (mangle_mangleContent run))"
proof -
  have "buffer_printable (f run True)" if f: "f \<in> set mangleFuncs" for f
  proof -
    from assms f have "store_printable (f run True)" by (rule store_printable_mangleFuncs)
    moreover from assms(1) f have "size_ok (f run True)" by (rule size_ok_mangleFuncs)
    ultimately show ?thesis by (rule buffer_printable_of_store)
  qed
  moreover have "buffer_printable (mangle_Resize run True)"
  proof -
    from assms(2) have "store_printable (mangle_Resize run True)" by (rule pr_Resize)
    moreover from assms(1) have "size_ok (mangle_Resize run True)" by (rule size_ok_Resize)
    ultimately show ?thesis by (rule buffer_printable_of_store)
  qed
  moreover have "buffer_printable (mangle_mangleContent run)" if p: "only_printable run"
  proof -
    from p assms have "store_printable (mangle_mangleContent run)"
      by (rule mangle_mangleContent_printable)
    moreover from assms(1) have "size_ok (mangle_mangleContent run)"
      using mangle_mangleContent_size_ok by blast
    ultimately show ?thesis by (rule buffer_printable_of_store)
  qed
  ultimately show ?thesis by blast
qed

text \<open>An instance: a 3-byte buffer \<open>ABC\<close> in a store of capacity 6 padded with spaces, and
  the dictionary entry \<open>xy\<close>.\<close>

lemma printable_invariant_instance:
  "size_ok ((ctx [0x41, 0x42, 0x43, 0x20, 0x20, 0x20] 3 6 [[0x78, 0x79]] [1, 1, 5, 6, 7, 8, 9, 10])\<lparr>only_printable := True\<rparr>)
   \<and> store_printable ((ctx [0x41, 0x42, 0x43, 0x20, 0x20, 0x20] 3 6 [[0x78, 0x79]] [1, 1, 5, 6, 7, 8, 9, 10])\<lparr>only_printable := True\<rparr>)
   \<and> dict_printable ((ctx [0x41, 0x42, 0x43, 0x20, 0x20, 0x20] 3 6 [[0x78, 0x79]] [1, 1, 5, 6, 7, 8, 9, 10])\<lparr>only_printable := True\<rparr>)
   \<and> only_printable ((ctx [0x41, 0x42, 0x43, 0x20, 0x20, 0x20] 3 6 [[0x78, 0x79]] [1, 1, 5, 6, 7, 8, 9, 10])\<lparr>only_printable := True\<rparr>)
   \<and> buffer_printable (mangle_Dictionary ((ctx [0x41, 0x42, 0x43, 0x20, 0x20, 0x20] 3 6 [[0x78, 0x79]] [1, 1, 5, 6, 7, 8, 9, 10])\<lparr>only_printable := True\<rparr>) True)
   \<and> buffer_printable (mangle_DictionaryInsert ((ctx [0x41, 0x42, 0x43, 0x20, 0x20, 0x20] 3 6 [[0x78, 0x79]] [1, 1, 5, 6, 7, 8, 9, 10])\<lparr>only_printable := True\<rparr>) True)
   \<and> buffer_printable (mangle_Expand ((ctx [0x41, 0x42, 0x43, 0x20, 0x20, 0x20] 3 6 [[0x78, 0x79]] [1, 1, 5, 6, 7, 8, 9, 10])\<lparr>only_printable := True\<rparr>) True)
   \<and> buffer_printable (mangle_mangleContent ((ctx [0x41, 0x42, 0x43, 0x20, 0x20, 0x20] 3 6 [[0x78, 0x79]] [1, 1, 5, 6, 7, 8, 9, 10])\<lparr>only_printable := True\<rparr>))"
proof -
  let ?c = "(ctx [0x41, 0x42, 0x43, 0x20, 0x20, 0x20] 3 6 [[0x78, 0x79]] [1, 1, 5, 6, 7, 8, 9, 10])\<lparr>only_printable := True\<rparr>"
  have h: "size_ok ?c" "store_printable ?c" "dict_printable ?c" "only_printable ?c"
    by code_simp+
  have m: "mangle_Expand \<in> set mangleFuncs" "mangle_Dictionary \<in> set mangleFuncs"
    "mangle_DictionaryInsert \<in> set mangleFuncs"
    by (simp_all only: mangleFuncs_def list.set insert_iff simp_thms)
  from printable_invariant [OF h(1-3)] m h show ?thesis
    by blast
qed

section \<open>Magic in printable mode\<close>

text \<open>
  Claim C2: no operator writes or reads a byte at an offset \<open>\<ge> size\<close>, in particular not
  Magic in printable mode when the width of the table entry exceeds \<open>size - off\<close>.
  The code does both there. \<^verbatim>\<open>mangle_Overwrite\<close> clamps the copy to \<open>size - off\<close>, but
  \<^verbatim>\<open>mangle_Magic\<close> then calls \<^verbatim>\<open>util_turnToPrintable\<close> with the full width of the
  entry. The theorem runs the code on a buffer of size 1 in a store of capacity 2, with
  \<open>off = 0\<close> and the entry of index 26 (\<open>00 00\<close>, width 2): the size stays 1, and the byte at
  offset 1, beyond the size, changes from \<open>0xFF\<close> to \<open>0x61\<close>. What is written there
  depends on what was read there (\<open>0x80\<close> becomes \<open>0x41\<close>). Without the printable flag the
  byte is left alone.
\<close>

theorem mangle_Magic_printable_past_size:
  "dynamicFileSz (ctx [0x41, 0xFF] 1 2 [] [0, 26]) = 1
   \<and> maxFileSz (ctx [0x41, 0xFF] 1 2 [] [0, 26]) = 2
   \<and> fst (util_rndGet 0 (1 - 1) (ctx [0x41, 0xFF] 1 2 [] [0, 26])) = 0
   \<and> mangleMagicVals ! 26 = ([0x00, 0x00, 0x00, 0x00, 0x00, 0x00, 0x00, 0x00], 2)
   \<and> dynamicFileSz (mangle_Magic (ctx [0x41, 0xFF] 1 2 [] [0, 26]) True) = 1
   \<and> dynamicFile (ctx [0x41, 0xFF] 1 2 [] [0, 26]) 1 = 0xFF
   \<and> dynamicFile (mangle_Magic (ctx [0x41, 0xFF] 1 2 [] [0, 26]) True) 1 = 0x61
   \<and> dynamicFile (mangle_Magic (ctx [0x41, 0x80] 1 2 [] [0, 26]) True) 1 = 0x41
   \<and> dynamicFile (mangle_Magic (ctx [0x41, 0xFF] 1 2 [] [0, 26]) False) 1 = 0xFF"
  by code_simp
section \<open>Shrink\<close>

text \<open>
  Claim C3 (scenario S4): Shrink on the buffer \<open>[A, B, C, D, E]\<close> of size 5, with the generator
  yielding \<open>len = 2\<close> and \<open>off = 1\<close>, is said to give size 3 and the bytes \<open>[A, D, E]\<close>.
  The code gives size 3 and the bytes \<open>[A, B, C]\<close>: \<^verbatim>\<open>input_setSize\<close> runs before
  \<^verbatim>\<open>mangle_Move\<close>, so the source offset \<open>off + len = 3\<close> is no longer below the size and
  \<^verbatim>\<open>mangle_Move\<close> returns at its first check. The theorem runs the code on the scenario:
  the two draws are \<open>len = 2\<close> and \<open>off = 1\<close>, and the result is the plain truncation.
\<close>

theorem mangle_Shrink_S4_truncates:
  "fst (util_rndGet 1 (5 - 1) (ctx [0x41, 0x42, 0x43, 0x44, 0x45] 5 5 [] [1, 1])) = 2
   \<and> fst (util_rndGet 0 2 (snd (util_rndGet 1 (5 - 1)
            (ctx [0x41, 0x42, 0x43, 0x44, 0x45] 5 5 [] [1, 1])))) = 1
   \<and> dynamicFileSz (mangle_Shrink (ctx [0x41, 0x42, 0x43, 0x44, 0x45] 5 5 [] [1, 1]) False) = 3
   \<and> contents (mangle_Shrink (ctx [0x41, 0x42, 0x43, 0x44, 0x45] 5 5 [] [1, 1]) False)
       = [0x41, 0x42, 0x43]
   \<and> contents (mangle_Shrink (ctx [0x41, 0x42, 0x43, 0x44, 0x45] 5 5 [] [1, 1]) False)
       \<noteq> [0x41, 0x44, 0x45]"
  by code_simp

section \<open>The magic table\<close>

text \<open>
  Claim C4 says the table has exactly 220 entries in the groups 1-byte (26), 2-byte native
  (4), 2-byte BE (27), 2-byte LE (31), 4-byte native (4), 4-byte BE (31), 4-byte LE (31),
  8-byte native (4), 8-byte BE (31), 8-byte LE (31), each BE group being a zero-prefixed copy
  of each 1-byte magic plus five boundary values.

  Claim C4 as amended, proved here: the table \<^verbatim>\<open>mangleMagicVals\<close> has exactly 221 entries,
  in the groups, in this order, 1-byte (26), 2-byte native (4), 2-byte BE (30), 2-byte LE
  (31), 4-byte native (4), 4-byte BE (30), 4-byte LE (31), 8-byte native (4), 8-byte BE (30),
  8-byte LE (31); each BE group is the zero-prefixed copy of each of the 25 non-zero 1-byte
  magics plus the five boundary values, and each LE group the zero-suffixed copy of each of
  the 26 1-byte magics plus the five mirrored boundary values.
\<close>

theorem mangleMagicVals_groups:
  "mangleMagicVals = concat magic_groups
   \<and> map length magic_groups = [26, 4, 30, 31, 4, 30, 31, 4, 30, 31]
   \<and> length mangleMagicVals = 221"
  by code_simp

text \<open>
  Claim C4 as stated fails: the table does not have 220 entries, the construction of the
  claim (a BE entry for each of the 26 magics) does not give the group sizes of the claim
  nor the table, and the 2-byte BE group of the table (the 30 entries from index 30 on) is
  built from the non-zero magics.
\<close>

theorem mangleMagicVals_counterexample:
  "length mangleMagicVals \<noteq> 220
   \<and> map length magic_groups_spec \<noteq> [26, 4, 27, 31, 4, 31, 31, 4, 31, 31]
   \<and> mangleMagicVals \<noteq> concat magic_groups_spec
   \<and> take 30 (drop 30 mangleMagicVals) = magic_be (filter (\<lambda>m. m \<noteq> 0x00) one_byte_magics) 2
   \<and> length (magic_be (filter (\<lambda>m. m \<noteq> 0x00) one_byte_magics) 2) = 30"
  by code_simp

section \<open>Move\<close>

text \<open>
  Claim C5, for a length and a size below \<open>2 ^ 63\<close> (where the casts to \<^verbatim>\<open>ssize_t\<close> in
  \<^verbatim>\<open>mangle_Move\<close> keep the values, as in every call the file makes):
  \<^verbatim>\<open>mangle_Move(off_from, off_to, len)\<close> does nothing when \<open>off_from \<ge> size\<close> or
  \<open>off_to \<ge> size\<close>. Otherwise it copies exactly
  \<open>n = min(len, size - off_from - 1, size - off_to - 1)\<close> bytes from \<open>off_from\<close> to \<open>off_to\<close>,
  every source byte being read from the buffer as it was before the call (overlap-safe), and
  all source and destination offsets lie below \<open>size - 1\<close>. So in every call the byte at
  offset \<open>size - 1\<close> is not written (it keeps its value) and not read (changing it
  beforehand changes the result at that offset only).
\<close>

theorem mangle_Move_spec:
  assumes "len < 2 ^ 63" and "dynamicFileSz run < 2 ^ 63"
  shows
  "(off_from \<ge> dynamicFileSz run \<or> off_to \<ge> dynamicFileSz run \<longrightarrow>
      mangle_Move run off_from off_to len = run)
   \<and> (off_from < dynamicFileSz run \<and> off_to < dynamicFileSz run \<longrightarrow>
      (let n = min len (min (dynamicFileSz run - off_from - 1) (dynamicFileSz run - off_to - 1))
       in mangle_Move run off_from off_to len =
            run\<lparr>dynamicFile := (\<lambda>i. if off_to \<le> i \<and> i < off_to + n
                                       then dynamicFile run (off_from + (i - off_to))
                                       else dynamicFile run i)\<rparr>
          \<and> off_from + n \<le> dynamicFileSz run - 1 \<and> off_to + n \<le> dynamicFileSz run - 1))
   \<and> dynamicFile (mangle_Move run off_from off_to len) (dynamicFileSz run - 1)
       = dynamicFile run (dynamicFileSz run - 1)
   \<and> mangle_Move (run\<lparr>dynamicFile := (dynamicFile run)(dynamicFileSz run - 1 := v)\<rparr>)
         off_from off_to len
       = (mangle_Move run off_from off_to len)
           \<lparr>dynamicFile := (dynamicFile (mangle_Move run off_from off_to len))
                               (dynamicFileSz run - 1 := v)\<rparr>"
  (is "?noop \<and> ?copy \<and> ?last_kept \<and> ?last_unread")
proof -
  let ?n = "move_len run off_from off_to len"
  have b: "off_from + ?n \<le> dynamicFileSz run - 1 \<and> off_to + ?n \<le> dynamicFileSz run - 1"
    if "off_from < dynamicFileSz run \<and> off_to < dynamicFileSz run"
    using that by (auto simp: move_len_def)
  have ?noop
    by (auto simp: mangle_Move_def)
  moreover have ?copy
  proof
    assume inside: "off_from < dynamicFileSz run \<and> off_to < dynamicFileSz run"
    then have "?n = min len (min (dynamicFileSz run - off_from - 1) (dynamicFileSz run - off_to - 1))"
      by (simp add: move_len_def)
    moreover have "mangle_Move run off_from off_to len =
        run\<lparr>dynamicFile := (\<lambda>i. if off_to \<le> i \<and> i < off_to + ?n
                                   then dynamicFile run (off_from + (i - off_to))
                                   else dynamicFile run i)\<rparr>"
      by (simp add: mangle_Move_eq memmove_def)
    ultimately show "let n = min len (min (dynamicFileSz run - off_from - 1) (dynamicFileSz run - off_to - 1))
       in mangle_Move run off_from off_to len =
            run\<lparr>dynamicFile := (\<lambda>i. if off_to \<le> i \<and> i < off_to + n
                                       then dynamicFile run (off_from + (i - off_to))
                                       else dynamicFile run i)\<rparr>
          \<and> off_from + n \<le> dynamicFileSz run - 1 \<and> off_to + n \<le> dynamicFileSz run - 1"
      using b [OF inside] unfolding Let_def by metis
  qed
  moreover have ?last_kept
  proof (cases "off_from < dynamicFileSz run \<and> off_to < dynamicFileSz run")
    case True
    from b [OF True] show ?thesis by (simp add: mangle_Move_eq memmove_def)
  next
    case False
    then show ?thesis by (simp add: mangle_Move_eq move_len_0)
  qed
  moreover have ?last_unread
  proof (cases "off_from < dynamicFileSz run \<and> off_to < dynamicFileSz run")
    case True
    have n: "move_len (run\<lparr>dynamicFile := m\<rparr>) off_from off_to len = ?n" for m
      by (simp add: move_len_def)
    have "memmove ((dynamicFile run)(dynamicFileSz run - 1 := v)) off_to off_from ?n
        = (memmove (dynamicFile run) off_to off_from ?n)(dynamicFileSz run - 1 := v)"
      by (rule ext) (use b [OF True] in \<open>auto simp: memmove_def\<close>)
    then show ?thesis
      by (simp add: mangle_Move_eq n)
  next
    case False
    then have "move_len (run\<lparr>dynamicFile := m\<rparr>) off_from off_to len = 0" for m
      by (intro move_len_0) simp
    with False show ?thesis by (simp add: mangle_Move_eq move_len_0)
  qed
  ultimately show ?thesis by (intro conjI)
qed

text \<open>Both branches on the buffer \<open>[1, 2, 3, 4, 5]\<close>: moving from 0 to 2 with \<open>len = 5\<close>
  copies \<open>min(5, 4, 2) = 2\<close> bytes and leaves the last byte; a source offset of 7 is a
  no-op.\<close>

theorem mangle_Move_spec_witness:
  "(5::nat) < 2 ^ 63
   \<and> dynamicFileSz (ctx [1, 2, 3, 4, 5] 5 5 [] []) < 2 ^ 63
   \<and> (0::nat) < dynamicFileSz (ctx [1, 2, 3, 4, 5] 5 5 [] [])
   \<and> (2::nat) < dynamicFileSz (ctx [1, 2, 3, 4, 5] 5 5 [] [])
   \<and> mangle_Move (ctx [1, 2, 3, 4, 5] 5 5 [] []) 0 2 5
       = (ctx [1, 2, 3, 4, 5] 5 5 [] [])
           \<lparr>dynamicFile := (\<lambda>i. if 2 \<le> i \<and> i < 2 + 2
                 then dynamicFile (ctx [1, 2, 3, 4, 5] 5 5 [] []) (0 + (i - 2))
                 else dynamicFile (ctx [1, 2, 3, 4, 5] 5 5 [] []) i)\<rparr>
   \<and> contents (mangle_Move (ctx [1, 2, 3, 4, 5] 5 5 [] []) 0 2 5) = [1, 2, 1, 2, 5]
   \<and> dynamicFileSz (ctx [1, 2, 3, 4, 5] 5 5 [] []) \<le> 7
   \<and> mangle_Move (ctx [1, 2, 3, 4, 5] 5 5 [] []) 7 0 2 = ctx [1, 2, 3, 4, 5] 5 5 [] []"
proof -
  let ?c = "ctx [1, 2, 3, 4, 5] 5 5 [] []"
  have b: "(5::nat) < 2 ^ 63" "(2::nat) < 2 ^ 63" "dynamicFileSz ?c < 2 ^ 63"
    by (simp_all add: ctx_def)
  have sz: "dynamicFileSz ?c = 5"
    by (simp add: ctx_def)
  have h: "0 < dynamicFileSz ?c \<and> 2 < dynamicFileSz ?c" "dynamicFileSz ?c \<le> 7"
    by (simp_all add: sz)
  from mangle_Move_spec [OF b(1) b(3), of 0 2] h(1)
  have "let n = min 5 (min (dynamicFileSz ?c - 0 - 1) (dynamicFileSz ?c - 2 - 1))
       in mangle_Move ?c 0 2 5 =
            ?c\<lparr>dynamicFile := (\<lambda>i. if 2 \<le> i \<and> i < 2 + n
                                       then dynamicFile ?c (0 + (i - 2))
                                       else dynamicFile ?c i)\<rparr>
          \<and> 0 + n \<le> dynamicFileSz ?c - 1 \<and> 2 + n \<le> dynamicFileSz ?c - 1"
    by blast
  then have copy: "mangle_Move ?c 0 2 5 =
            ?c\<lparr>dynamicFile := (\<lambda>i. if 2 \<le> i \<and> i < 2 + 2
                                       then dynamicFile ?c (0 + (i - 2))
                                       else dynamicFile ?c i)\<rparr>"
    unfolding sz Let_def by simp
  have "contents (mangle_Move ?c 0 2 5) = [1, 2, 1, 2, 5]"
    by code_simp
  moreover from mangle_Move_spec [OF b(2) b(3), of 7 0] h(2) have "mangle_Move ?c 7 0 2 = ?c"
    by blast
  ultimately show ?thesis using b(1,3) h copy by blast
qed

section \<open>The size invariant\<close>

text \<open>
  Claim C6: for every context with \<open>1 \<le> size \<le> maxFileSz\<close> on entry, with
  \<^verbatim>\<open>input_setSize(n)\<close> setting the logical size to \<open>n\<close>, each of the sixteen operators of
  \<^verbatim>\<open>mangleFuncs\<close> (for either value of the printable flag), the Resize step, and the whole
  \<^verbatim>\<open>mangle_mangleContent\<close> session end with \<open>1 \<le> size \<le> maxFileSz\<close> again, and none of
  them changes \<^verbatim>\<open>maxFileSz\<close>.
\<close>

theorem size_invariant:
  assumes "1 \<le> dynamicFileSz run \<and> dynamicFileSz run \<le> maxFileSz run"
  shows "(\<forall>f \<in> set mangleFuncs. size_ok (f run printable) \<and> maxFileSz (f run printable) = maxFileSz run)
     \<and> size_ok (mangle_Resize run printable) \<and> maxFileSz (mangle_Resize run printable) = maxFileSz run
     \<and> size_ok (mangle_mangleContent run) \<and> maxFileSz (mangle_mangleContent run) = maxFileSz run"
proof -
  from assms have ok: "size_ok run" by (simp add: size_ok_def)
  have "size_ok (f run printable) \<and> maxFileSz (f run printable) = maxFileSz run"
    if "f \<in> set mangleFuncs" for f
    using that ok same_globals_mangleFuncs [of f run printable]
    by (simp add: size_ok_mangleFuncs same_globals_def)
  moreover have "size_ok (mangle_Resize run printable) \<and> maxFileSz (mangle_Resize run printable) = maxFileSz run"
    using ok same_globals_Resize [of run printable] by (simp add: size_ok_Resize same_globals_def)
  moreover have "size_ok (mangle_mangleContent run) \<and> maxFileSz (mangle_mangleContent run) = maxFileSz run"
    using mangle_mangleContent_size_ok [OF ok] by (simp add: same_globals_def)
  ultimately show ?thesis by blast
qed

text \<open>The invariant at work on a 3-byte buffer of capacity 8 with a one-entry dictionary:
  the hypothesis holds there, and so the growing and shrinking operators and the session
  all leave the size within bounds.\<close>

theorem size_invariant_witness:
  "(1 \<le> dynamicFileSz (ctx [0x41, 0x42, 0x43] 3 8 [[0x78, 0x79]] [2, 1, 5, 6, 7, 8, 9, 10])
      \<and> dynamicFileSz (ctx [0x41, 0x42, 0x43] 3 8 [[0x78, 0x79]] [2, 1, 5, 6, 7, 8, 9, 10])
          \<le> maxFileSz (ctx [0x41, 0x42, 0x43] 3 8 [[0x78, 0x79]] [2, 1, 5, 6, 7, 8, 9, 10]))
   \<and> size_ok (mangle_Expand (ctx [0x41, 0x42, 0x43] 3 8 [[0x78, 0x79]] [2, 1, 5, 6, 7, 8, 9, 10]) False)
   \<and> size_ok (mangle_Shrink (ctx [0x41, 0x42, 0x43] 3 8 [[0x78, 0x79]] [2, 1, 5, 6, 7, 8, 9, 10]) False)
   \<and> size_ok (mangle_DictionaryInsert (ctx [0x41, 0x42, 0x43] 3 8 [[0x78, 0x79]] [2, 1, 5, 6, 7, 8, 9, 10]) False)
   \<and> size_ok (mangle_Resize (ctx [0x41, 0x42, 0x43] 3 8 [[0x78, 0x79]] [2, 1, 5, 6, 7, 8, 9, 10]) False)
   \<and> size_ok (mangle_mangleContent (ctx [0x41, 0x42, 0x43] 3 8 [[0x78, 0x79]] [2, 1, 5, 6, 7, 8, 9, 10]))"
proof -
  let ?c = "ctx [0x41, 0x42, 0x43] 3 8 [[0x78, 0x79]] [2, 1, 5, 6, 7, 8, 9, 10]"
  have h: "1 \<le> dynamicFileSz ?c \<and> dynamicFileSz ?c \<le> maxFileSz ?c"
    by (simp add: ctx_def)
  have m: "mangle_Expand \<in> set mangleFuncs" "mangle_Shrink \<in> set mangleFuncs"
    "mangle_DictionaryInsert \<in> set mangleFuncs"
    by (simp_all only: mangleFuncs_def list.set insert_iff simp_thms)
  from size_invariant [OF h, of False] m h show ?thesis
    by blast
qed

section \<open>The empty dictionary\<close>

text \<open>
  Claim C7: with an empty dictionary (\<^verbatim>\<open>dictionaryCnt = 0\<close>), Dictionary and
  DictionaryInsert each end in exactly the state that Bit ends in from the same starting
  state: the same buffer, the same size and the same number of draws consumed from the same
  tape (the whole context is equal).
\<close>

theorem empty_dictionary_is_Bit:
  "dictionaryCnt run = 0 \<Longrightarrow>
   mangle_Dictionary run printable = mangle_Bit run printable \<and>
   mangle_DictionaryInsert run printable = mangle_Bit run printable"
  by (simp add: mangle_Dictionary_def mangle_DictionaryInsert_def)

text \<open>Scenario S1 through the fallback: on \<open>[AA, BB, CC]\<close> with the draws \<open>off = 1\<close> and
  \<open>bit = 3\<close>, DictionaryInsert with no dictionary flips bit 3 of the byte at offset 1 and
  consumes the two draws.\<close>

theorem empty_dictionary_is_Bit_witness:
  "dictionaryCnt (ctx [0xAA, 0xBB, 0xCC] 3 3 [] [1, 3]) = 0
   \<and> mangle_Dictionary (ctx [0xAA, 0xBB, 0xCC] 3 3 [] [1, 3]) False
       = mangle_Bit (ctx [0xAA, 0xBB, 0xCC] 3 3 [] [1, 3]) False
   \<and> mangle_DictionaryInsert (ctx [0xAA, 0xBB, 0xCC] 3 3 [] [1, 3]) False
       = mangle_Bit (ctx [0xAA, 0xBB, 0xCC] 3 3 [] [1, 3]) False
   \<and> contents (mangle_DictionaryInsert (ctx [0xAA, 0xBB, 0xCC] 3 3 [] [1, 3]) False)
       = [0xAA, 0xB3, 0xCC]
   \<and> rndPos (mangle_DictionaryInsert (ctx [0xAA, 0xBB, 0xCC] 3 3 [] [1, 3]) False) = 2"
proof -
  let ?c = "ctx [0xAA, 0xBB, 0xCC] 3 3 [] [1, 3]"
  have h: "dictionaryCnt ?c = 0" by (simp add: ctx_def)
  have "contents (mangle_DictionaryInsert ?c False) = [0xAA, 0xB3, 0xCC]"
    "rndPos (mangle_DictionaryInsert ?c False) = 2"
    by code_simp+
  with empty_dictionary_is_Bit [OF h, of False] h show ?thesis by simp
qed

section \<open>Resize\<close>

text \<open>
  Claim C8: the Resize step draws \<open>v\<close> in \<open>[0, 16]\<close> and computes the new size as
  \<open>rnd(1, maxFileSz)\<close> when \<open>v = 0\<close>, \<open>oldSize + v\<close> when \<open>1 \<le> v \<le> 8\<close> and \<open>oldSize + 8 - v\<close>
  (a delta in \<open>[-8, -1]\<close>) when \<open>9 \<le> v \<le> 16\<close>; it clamps the new size to \<open>[1, maxFileSz]\<close>
  and applies \<^verbatim>\<open>input_setSize\<close>; exactly when the new size exceeds the old one it fills
  the bytes \<open>[oldSize, newSize)\<close> with the next \<open>newSize - oldSize\<close> random bytes (printable
  ones if the flag is set), and it leaves the bytes \<open>[0, min(oldSize, newSize))\<close> unchanged.
  When the buffer does not grow, no byte changes and no draw beyond those for \<open>v\<close> (and for
  the random size) is consumed. The capacity is at least 1, as the interval of the clamp
  requires. (That the draw is uniform is a property of the generator, not of this code.)
\<close>

theorem mangle_Resize_spec:
  assumes "1 \<le> maxFileSz run"
  shows
    "let v = fst (util_rndGet 0 16 run);
         r = fst (util_rndGet 1 (maxFileSz run) (snd (util_rndGet 0 16 run)));
         drawn = (if v = 0 then 2 else 1);
         oldSize = dynamicFileSz run;
         newSize = resize_newSize oldSize (maxFileSz run) v r;
         fill = (if printable
                 then rnd_printable_bytes (rndTape run) (rndPos run + drawn) (newSize - oldSize)
                 else rnd_bytes (rndTape run) (rndPos run + drawn) (newSize - oldSize));
         run' = mangle_Resize run printable
     in v \<le> 16 \<and> 1 \<le> r \<and> r \<le> maxFileSz run
        \<and> (9 \<le> v \<longrightarrow> - 8 \<le> 8 - int v \<and> 8 - int v \<le> - 1)
        \<and> 1 \<le> newSize \<and> newSize \<le> maxFileSz run
        \<and> dynamicFileSz run' = newSize
        \<and> (\<forall>i < min oldSize newSize. dynamicFile run' i = dynamicFile run i)
        \<and> (newSize > oldSize \<longrightarrow>
              (\<forall>i. oldSize \<le> i \<and> i < newSize \<longrightarrow> dynamicFile run' i = fill ! (i - oldSize))
              \<and> (printable \<longrightarrow> list_all is_printable fill)
              \<and> rndPos run' = rndPos run + drawn + (newSize - oldSize))
        \<and> (newSize \<le> oldSize \<longrightarrow>
              dynamicFile run' = dynamicFile run \<and> rndPos run' = rndPos run + drawn)"
proof -
  define v where "v = fst (util_rndGet 0 16 run)"
  define r where "r = fst (util_rndGet 1 (maxFileSz run) (snd (util_rndGet 0 16 run)))"
  define drawn :: nat where "drawn = (if v = 0 then 2 else 1)"
  define newSize where "newSize = resize_newSize (dynamicFileSz run) (maxFileSz run) v r"
  define fill where "fill = (if printable
                 then rnd_printable_bytes (rndTape run) (rndPos run + drawn) (newSize - dynamicFileSz run)
                 else rnd_bytes (rndTape run) (rndPos run + drawn) (newSize - dynamicFileSz run))"
  have v: "v \<le> 16" unfolding v_def by (rule util_rndGet_le0)
  have r: "1 \<le> r" "r \<le> maxFileSz run"
    unfolding r_def using assms by (simp_all add: util_rndGet_ge util_rndGet_le)
  have new: "1 \<le> newSize" "newSize \<le> maxFileSz run"
    using assms by (simp_all add: newSize_def resize_newSize_def)
  have newsz: "int newSize = (let n0 = (if v = 0 then int r
        else if 1 \<le> v \<and> v \<le> 8 then int (dynamicFileSz run) + int v
        else if 9 \<le> v \<and> v \<le> 16 then int (dynamicFileSz run) + 8 - int v else 0);
        n1 = (if n0 < 1 then 1 else n0)
      in if n1 > int (maxFileSz run) then int (maxFileSz run) else n1)"
    using assms v by (auto simp: newSize_def resize_newSize_def Let_def)
  have eq: "mangle_Resize run printable =
     (if newSize > dynamicFileSz run
      then run\<lparr>rndPos := rndPos run + drawn + (newSize - dynamicFileSz run),
               dynamicFileSz := newSize,
               dynamicFile := store (dynamicFile run) (dynamicFileSz run) fill (newSize - dynamicFileSz run)\<rparr>
      else run\<lparr>rndPos := rndPos run + drawn, dynamicFileSz := newSize\<rparr>)"
  proof -
    obtain v' run1 where a: "util_rndGet 0 16 run = (v', run1)"
      by (cases "util_rndGet 0 16 run")
    have v': "v' = v" unfolding v_def a by simp
    have "run1 = snd (util_rndGet 0 16 run)" unfolding a by simp
    then have run1: "run1 = run\<lparr>rndPos := rndPos run + 1\<rparr>" by simp
    obtain r' run2 where b: "util_rndGet (Suc 0) (maxFileSz run) run1 = (r', run2)"
      by (cases "util_rndGet (Suc 0) (maxFileSz run) run1")
    have r': "r' = r" using b by (simp add: r_def a)
    have "run2 = snd (util_rndGet (Suc 0) (maxFileSz run) run1)" by (simp only: b snd_conv)
    then have run2: "run2 = run\<lparr>rndPos := rndPos run + 2\<rparr>" by (simp add: run1)
    have mx: "maxFileSz run1 = maxFileSz run" by (simp add: run1)
    have nd: "nat (int a - int b) = a - b" for a b :: nat by linarith
    consider (rand) "v = 0" | (grow) "1 \<le> v \<and> v \<le> 8" | (shrink) "9 \<le> v \<and> v \<le> 16"
      using v by linarith
    then show ?thesis
    proof cases
      case rand
      with r have n: "newSize = r" by (simp add: newSize_def resize_newSize_def)
      from rand have d: "drawn = 2" by (simp add: drawn_def)
      from rand r show ?thesis
        unfolding mangle_Resize_def a
        by (simp add: v' mx b r' run2 n d nd Let_def split_def input_setSize_def fill_def
            fst_util_rndBuf fst_util_rndBufPrintable
            del: util_rndBuf.simps util_rndBufPrintable.simps)
    next
      case grow
      then have d: "drawn = 1" by (simp add: drawn_def)
      show ?thesis
      proof (cases "dynamicFileSz run + v \<le> maxFileSz run")
        case True
        with grow have n: "newSize = dynamicFileSz run + v"
          by (simp add: newSize_def resize_newSize_def)
        from grow True show ?thesis
          unfolding mangle_Resize_def a
          by (simp add: v' mx run1 n d nd Let_def split_def input_setSize_def fill_def
              fst_util_rndBuf fst_util_rndBufPrintable
              del: util_rndBuf.simps util_rndBufPrintable.simps)
      next
        case False
        with grow assms have n: "newSize = maxFileSz run"
          by (simp add: newSize_def resize_newSize_def)
        from grow False assms show ?thesis
          unfolding mangle_Resize_def a
          by (simp add: v' mx run1 n d nd Let_def split_def input_setSize_def fill_def
              fst_util_rndBuf fst_util_rndBufPrintable
                del: util_rndBuf.simps util_rndBufPrintable.simps)
      qed
    next
      case shrink
      then have d: "drawn = 1" by (simp add: drawn_def)
      show ?thesis
      proof (cases "int (dynamicFileSz run) + 8 - int v < 1")
        case True
        with shrink assms have n: "newSize = 1"
          by (simp add: newSize_def resize_newSize_def)
        from shrink True assms show ?thesis
          unfolding mangle_Resize_def a
          by (simp add: v' mx run1 n d nd Let_def split_def input_setSize_def fill_def
              fst_util_rndBuf fst_util_rndBufPrintable
              del: util_rndBuf.simps util_rndBufPrintable.simps)
      next
        case low: False
        show ?thesis
        proof (cases "int (dynamicFileSz run) + 8 - int v > int (maxFileSz run)")
          case True
          with shrink low assms have n: "newSize = maxFileSz run"
            by (simp add: newSize_def resize_newSize_def)
          from shrink low True assms show ?thesis
            unfolding mangle_Resize_def a
            by (simp add: v' mx run1 n d nd Let_def split_def input_setSize_def fill_def
                fst_util_rndBuf fst_util_rndBufPrintable
                del: util_rndBuf.simps util_rndBufPrintable.simps)
        next
          case False
          with shrink low assms have n: "int newSize = int (dynamicFileSz run) + 8 - int v"
            by (simp add: newSize_def resize_newSize_def)
          then have le: "newSize \<le> dynamicFileSz run" using shrink by linarith
          from n have n': "nat (int (dynamicFileSz run) + 8 - int v) = newSize" by linarith
          from shrink low False assms le show ?thesis
            unfolding mangle_Resize_def a
            by (simp add: v' mx run1 n' d nd Let_def split_def input_setSize_def fill_def)
        qed
      qed
    qed
  qed
  have pr: "list_all is_printable fill" if printable
    using that util_rndBufPrintable_printable [of "newSize - dynamicFileSz run" "run\<lparr>rndPos := rndPos run + drawn\<rparr>"]
    by (simp add: fill_def fst_util_rndBufPrintable)
  show ?thesis
    unfolding Let_def v_def [symmetric] r_def [symmetric] drawn_def [symmetric]
      newSize_def [symmetric] fill_def [symmetric]
    using v r new pr by (auto simp: eq store_def)
qed

text \<open>Scenario S5: the buffer \<open>abc\<close> with capacity 16 in printable mode, \<open>v = 4\<close> and the
  fill draws giving \<open>XYZW\<close>: size 7 and contents \<open>abcXYZW\<close>, five draws consumed.\<close>

theorem mangle_Resize_spec_witness:
  "1 \<le> maxFileSz ((ctx [0x61, 0x62, 0x63] 3 16 [] [4, 56, 57, 58, 55])\<lparr>only_printable := True\<rparr>)
   \<and> fst (util_rndGet 0 16 ((ctx [0x61, 0x62, 0x63] 3 16 [] [4, 56, 57, 58, 55])\<lparr>only_printable := True\<rparr>)) = 4
   \<and> dynamicFileSz (mangle_Resize
         ((ctx [0x61, 0x62, 0x63] 3 16 [] [4, 56, 57, 58, 55])\<lparr>only_printable := True\<rparr>) True) = 7
   \<and> contents (mangle_Resize
         ((ctx [0x61, 0x62, 0x63] 3 16 [] [4, 56, 57, 58, 55])\<lparr>only_printable := True\<rparr>) True)
       = [0x61, 0x62, 0x63, 0x58, 0x59, 0x5A, 0x57]
   \<and> rndPos (mangle_Resize
         ((ctx [0x61, 0x62, 0x63] 3 16 [] [4, 56, 57, 58, 55])\<lparr>only_printable := True\<rparr>) True) = 5"
proof -
  let ?c = "(ctx [0x61, 0x62, 0x63] 3 16 [] [4, 56, 57, 58, 55])\<lparr>only_printable := True\<rparr>"
  have h: "1 \<le> maxFileSz ?c" by (simp add: ctx_def)
  have v: "fst (util_rndGet 0 16 ?c) = 4" by code_simp
  have n: "resize_newSize (dynamicFileSz ?c) (maxFileSz ?c) 4 r = 7" for r
    by (simp add: resize_newSize_def ctx_def)
  have p: "rndPos ?c = 0" by (simp add: ctx_def)
  from mangle_Resize_spec [OF h, of True]
  have "dynamicFileSz (mangle_Resize ?c True) = 7 \<and> rndPos (mangle_Resize ?c True) = 5"
    unfolding Let_def v n p by (simp add: ctx_def)
  moreover have "contents (mangle_Resize ?c True) = [0x61, 0x62, 0x63, 0x58, 0x59, 0x5A, 0x57]"
    by code_simp
  ultimately show ?thesis using h v by blast
qed

section \<open>AddSub\<close>



section \<open>DictionaryInsert on a full buffer\<close>

text \<open>
  Claim C10: when the size already equals \<^verbatim>\<open>maxFileSz\<close> and the dictionary is not empty,
  DictionaryInsert does not grow the buffer. Its \<^verbatim>\<open>mangle_Inflate\<close> step returns the
  context as it is (no resize, no shift, no draw for fill bytes), and the chosen entry is
  still written over the bytes at the chosen offset, clamped to \<open>size - off\<close>: the operator
  is a dictionary overwrite that consumes the two draws for the entry and the offset.
\<close>

theorem mangle_DictionaryInsert_at_maxFileSz:
  assumes "dynamicFileSz run = maxFileSz run" "dictionaryCnt run \<noteq> 0"
  shows
    "let choice = fst (util_rndGet 0 (dictionaryCnt run - 1) run);
         str = dictq run ! choice;
         off = fst (util_rndGet 0 (dynamicFileSz run - 1) (snd (util_rndGet 0 (dictionaryCnt run - 1) run)));
         run2 = run\<lparr>rndPos := rndPos run + 2\<rparr>;
         n = min (length str) (dynamicFileSz run - off)
     in mangle_Inflate run2 off (length str) printable = run2
        \<and> mangle_DictionaryInsert run printable
            = run2\<lparr>dynamicFile := (\<lambda>i. if off \<le> i \<and> i < off + n then str ! (i - off)
                                       else dynamicFile run i)\<rparr>
        \<and> dynamicFileSz (mangle_DictionaryInsert run printable) = dynamicFileSz run
        \<and> rndPos (mangle_DictionaryInsert run printable) = rndPos run + 2"
  using assms
  by (simp add: Let_def mangle_DictionaryInsert_def mangle_DictionaryInsertNoCheck_def split_def
      mangle_Inflate_def mangle_Overwrite_eq store_def cong: if_cong)

text \<open>On the full buffer \<open>ABC\<close> with the entry \<open>xyz\<close> and the offset 1 the result is
  \<open>Axy\<close>: not a no-op.\<close>

theorem mangle_DictionaryInsert_at_maxFileSz_witness:
  "dynamicFileSz (ctx [0x41, 0x42, 0x43] 3 3 [[0x78, 0x79, 0x7A]] [0, 1])
     = maxFileSz (ctx [0x41, 0x42, 0x43] 3 3 [[0x78, 0x79, 0x7A]] [0, 1])
   \<and> dictionaryCnt (ctx [0x41, 0x42, 0x43] 3 3 [[0x78, 0x79, 0x7A]] [0, 1]) \<noteq> 0
   \<and> dynamicFileSz (mangle_DictionaryInsert (ctx [0x41, 0x42, 0x43] 3 3 [[0x78, 0x79, 0x7A]] [0, 1]) False) = 3
   \<and> rndPos (mangle_DictionaryInsert (ctx [0x41, 0x42, 0x43] 3 3 [[0x78, 0x79, 0x7A]] [0, 1]) False) = 2
   \<and> contents (mangle_DictionaryInsert (ctx [0x41, 0x42, 0x43] 3 3 [[0x78, 0x79, 0x7A]] [0, 1]) False)
       = [0x41, 0x78, 0x79]
   \<and> contents (mangle_DictionaryInsert (ctx [0x41, 0x42, 0x43] 3 3 [[0x78, 0x79, 0x7A]] [0, 1]) False)
       \<noteq> contents (ctx [0x41, 0x42, 0x43] 3 3 [[0x78, 0x79, 0x7A]] [0, 1])"
proof -
  let ?c = "ctx [0x41, 0x42, 0x43] 3 3 [[0x78, 0x79, 0x7A]] [0, 1]"
  have h: "dynamicFileSz ?c = maxFileSz ?c" "dictionaryCnt ?c \<noteq> 0"
    by (simp_all add: ctx_def)
  from mangle_DictionaryInsert_at_maxFileSz [OF h, of False]
  have "dynamicFileSz (mangle_DictionaryInsert ?c False) = dynamicFileSz ?c
      \<and> rndPos (mangle_DictionaryInsert ?c False) = rndPos ?c + 2"
    unfolding Let_def by blast
  then have "dynamicFileSz (mangle_DictionaryInsert ?c False) = 3
      \<and> rndPos (mangle_DictionaryInsert ?c False) = 2"
    by (simp add: ctx_def)
  moreover have "contents (mangle_DictionaryInsert ?c False) = [0x41, 0x78, 0x79]"
    "contents ?c = [0x41, 0x42, 0x43]"
    by code_simp+
  ultimately show ?thesis using h by simp
qed

end
